theory Spec2Isabelle
  imports Complex_Main "HOL-Library.Word" "HOL-Library.Log_Nat"
    "HOL-Library.Char_ord" "HOL-Library.List_Lexorder" "HOL-Library.AList"
    "HOL-Library.Multiset"
begin

section \<open>Go values\<close>

text \<open>
  The program passes \<^verbatim>\<open>interface{}\<close> values around: results, metadata and context
  data are \<^verbatim>\<open>map[string]interface{}\<close>. A dynamic value is one of the shapes below.
  A Go map is the association list of its entries (keys distinct); a read
  \<^verbatim>\<open>m[k]\<close> is \<open>map_of m k\<close>, and a map literal lists its entries in source order.
  \<open>VInt\<close> carries a Go integer (from \<open>-2^63\<close> to \<open>2^64 - 1\<close>) and \<open>VFloat\<close> the exact
  value of a finite \<^verbatim>\<open>float64\<close>. \<open>VUnsupported\<close> stands
  for a value of a type that \<^verbatim>\<open>encoding/json\<close> refuses to marshal (a channel, a
  function, a complex number); it carries the name of the type as the encoder's error
  message prints it.
\<close>

datatype val =
    VNil
  | VBool bool
  | VInt int
  | VFloat rat
  | VStr string
  | VList "val list"
  | VMap "(string \<times> val) list"
  | VUnsupported string

type_synonym gomap = "(string \<times> val) list"

text \<open>\<^verbatim>\<open>m[k]\<close> read as an \<^verbatim>\<open>interface{}\<close>: the zero value \<^verbatim>\<open>nil\<close> when the key is absent.\<close>

definition index :: "gomap \<Rightarrow> string \<Rightarrow> val" where
  "index m k = (case map_of m k of Some v \<Rightarrow> v | None \<Rightarrow> VNil)"

text \<open>
  \<^verbatim>\<open>valid, ok := result["valid"].(bool)\<close>: the pair \<open>(valid, ok)\<close>; a failed type
  assertion yields the zero value \<open>False\<close> and \<open>ok = False\<close>.
\<close>

definition assert_bool :: "val \<Rightarrow> bool \<times> bool" where
  "assert_bool v = (case v of VBool b \<Rightarrow> (b, True) | _ \<Rightarrow> (False, False))"

text \<open>
  \<^verbatim>\<open>fmt.Sprintf("%d", n)\<close> for an \<^verbatim>\<open>int\<close>: decimal digits, a minus sign when negative.
  \<open>digit\<close> is the character of a digit below 16, lowercase as \<^verbatim>\<open>%x\<close> prints it.
\<close>

definition digit :: "nat \<Rightarrow> char" where
  "digit n = ''0123456789abcdef'' ! n"

fun decimal :: "nat \<Rightarrow> string" where
  "decimal n =
     (if n < 10 then [digit n]
      else decimal (n div 10) @ [digit (n mod 10)])"

declare decimal.simps [simp del]

definition fmt_d :: "int \<Rightarrow> string" where
  "fmt_d n = (if n < 0 then CHR ''-'' # decimal (nat (- n)) else decimal (nat n))"

text \<open>\<^verbatim>\<open>strings.Join(elems, sep)\<close>.\<close>

fun Join :: "string list \<Rightarrow> string \<Rightarrow> string" where
  "Join [] sep = []"
| "Join [x] sep = x"
| "Join (x # y # ys) sep = x @ sep @ Join (y # ys) sep"

text \<open>\<^verbatim>\<open>strings.Contains(s, substr)\<close>, on any list of symbols.\<close>

fun has_prefix :: "'a list \<Rightarrow> 'a list \<Rightarrow> bool" where
  "has_prefix s [] = True"
| "has_prefix [] (p # ps) = False"
| "has_prefix (c # cs) (p # ps) = (if c = p then has_prefix cs ps else False)"

fun Contains :: "'a list \<Rightarrow> 'a list \<Rightarrow> bool" where
  "Contains [] sub = has_prefix [] sub"
| "Contains (c # cs) sub = (if has_prefix (c # cs) sub then True else Contains cs sub)"

section \<open>Primitive contracts\<close>

text \<open>
  \<^verbatim>\<open>GovernancePrimitive\<close> is an interface with \<^verbatim>\<open>Version()\<close> and \<^verbatim>\<open>Evaluate(context)\<close>;
  \<^verbatim>\<open>NamedPrimitive\<close> adds \<^verbatim>\<open>Name()\<close>. A primitive is a Go object: its \<^verbatim>\<open>Evaluate\<close> may
  read and change state of its own, so it takes the world \<open>'w\<close> and returns the new one
  beside the result map. \<open>Name = None\<close> is a primitive that does not implement
  \<^verbatim>\<open>NamedPrimitive\<close>.
\<close>

record ('c, 'w) GovernancePrimitive =
  Version :: string
  Evaluate :: "'c \<Rightarrow> 'w \<Rightarrow> gomap \<times> 'w"
  Name :: "string option"

text \<open>
  The state a run threads through: the world the primitives act on, and the log of
  the calls made, as the positions of the primitives whose \<^verbatim>\<open>Evaluate\<close> was invoked,
  in the order of the calls.
\<close>

record 'w run =
  world :: 'w
  calls :: "nat list"

text \<open>One call \<^verbatim>\<open>primitive.Evaluate(context)\<close> of the primitive at position \<open>i\<close>.\<close>

definition invoke ::
  "nat \<Rightarrow> ('c, 'w) GovernancePrimitive \<Rightarrow> 'c \<Rightarrow> 'w run \<Rightarrow> gomap \<times> 'w run" where
  "invoke i p c s =
     (case Evaluate p c (world s) of
        (result, w') \<Rightarrow> (result, s\<lparr>world := w', calls := calls s @ [i]\<rparr>))"

section \<open>Composition operators\<close>

definition getPrimitiveName :: "('c, 'w) GovernancePrimitive \<Rightarrow> nat \<Rightarrow> string" where
  "getPrimitiveName p i =
     (case Name p of Some n \<Rightarrow> n | None \<Rightarrow> ''primitive_'' @ fmt_d (int i))"

record ('c, 'w) sequentialAndPrimitive =
  sa_primitives :: "('c, 'w) GovernancePrimitive list"

definition SequentialAnd ::
  "('c, 'w) GovernancePrimitive list \<Rightarrow> ('c, 'w) sequentialAndPrimitive" where
  "SequentialAnd ps = \<lparr>sa_primitives = ps\<rparr>"

text \<open>
  The loop of \<^verbatim>\<open>sequentialAndPrimitive.Evaluate\<close> from position \<open>i\<close> on, over the
  primitives still to visit; it returns from inside at the first result that is not
  \<open>valid = true\<close>.
\<close>

fun sequentialAnd_loop ::
  "nat \<Rightarrow> ('c, 'w) GovernancePrimitive list \<Rightarrow> 'c \<Rightarrow> 'w run \<Rightarrow> gomap \<times> 'w run" where
  "sequentialAnd_loop i [] c s =
     ([(''valid'', VBool True),
       (''metadata'', VMap [(''message'', VStr ''All primitives passed sequentially'')]),
       (''evidence'', VList [])], s)"
| "sequentialAnd_loop i (p # ps) c s =
     (case invoke i p c s of
        (result, s') \<Rightarrow>
          (case assert_bool (index result ''valid'') of
             (valid, ok) \<Rightarrow>
               if \<not> ok \<or> \<not> valid then
                 ([(''valid'', VBool False),
                   (''metadata'', VMap
                      [(''reason'', VStr (''Primitive '' @ getPrimitiveName p i @ '' failed'')),
                       (''failed_index'', VInt (int i))]),
                   (''evidence'', VList [])], s')
               else sequentialAnd_loop (Suc i) ps c s'))"

definition sequentialAnd_Evaluate ::
  "('c, 'w) sequentialAndPrimitive \<Rightarrow> 'c \<Rightarrow> 'w run \<Rightarrow> gomap \<times> 'w run" where
  "sequentialAnd_Evaluate p c s = sequentialAnd_loop 0 (sa_primitives p) c s"

text \<open>
  The first loop of \<^verbatim>\<open>parallelAndPrimitive.Evaluate\<close> and of
  \<^verbatim>\<open>thresholdPrimitive.Evaluate\<close>: every primitive is evaluated and
  \<^verbatim>\<open>results[i] = ok && valid\<close> is recorded.
\<close>

fun collect_results ::
  "nat \<Rightarrow> ('c, 'w) GovernancePrimitive list \<Rightarrow> 'c \<Rightarrow> 'w run \<Rightarrow> bool list \<times> 'w run" where
  "collect_results i [] c s = ([], s)"
| "collect_results i (p # ps) c s =
     (case invoke i p c s of
        (result, s') \<Rightarrow>
          (case assert_bool (index result ''valid'') of
             (valid, ok) \<Rightarrow>
               (case collect_results (Suc i) ps c s' of
                  (rs, s'') \<Rightarrow> ((ok \<and> valid) # rs, s''))))"

record ('c, 'w) parallelAndPrimitive =
  pa_primitives :: "('c, 'w) GovernancePrimitive list"

definition ParallelAnd ::
  "('c, 'w) GovernancePrimitive list \<Rightarrow> ('c, 'w) parallelAndPrimitive" where
  "ParallelAnd ps = \<lparr>pa_primitives = ps\<rparr>"

text \<open>The scan \<^verbatim>\<open>for _, r := range results { if !r { allPassed = false; break } }\<close>.\<close>

fun allPassed :: "bool list \<Rightarrow> bool" where
  "allPassed [] = True"
| "allPassed (r # rs) = (if \<not> r then False else allPassed rs)"

text \<open>
  The loop that collects \<^verbatim>\<open>failedPrimitives\<close>: the name of every primitive whose
  entry of \<^verbatim>\<open>results\<close> is false, from position \<open>i\<close> on.
\<close>

fun failedPrimitives ::
  "nat \<Rightarrow> ('c, 'w) GovernancePrimitive list \<Rightarrow> bool list \<Rightarrow> string list" where
  "failedPrimitives i (p # ps) (r # rs) =
     (if \<not> r then getPrimitiveName p i # failedPrimitives (Suc i) ps rs
      else failedPrimitives (Suc i) ps rs)"
| "failedPrimitives i ps rs = []"

text \<open>\<^verbatim>\<open>fmt.Sprintf("%v", xs)\<close> for a \<^verbatim>\<open>[]string\<close>: the elements between brackets, a space apart.\<close>

definition fmt_v :: "string list \<Rightarrow> string" where
  "fmt_v xs = ''['' @ Join xs '' '' @ '']''"

definition parallelAnd_Evaluate ::
  "('c, 'w) parallelAndPrimitive \<Rightarrow> 'c \<Rightarrow> 'w run \<Rightarrow> gomap \<times> 'w run" where
  "parallelAnd_Evaluate p c s =
     (case collect_results 0 (pa_primitives p) c s of
        (results, s') \<Rightarrow>
          if allPassed results then
            ([(''valid'', VBool True),
              (''metadata'', VMap [(''message'', VStr ''All primitives passed in parallel'')]),
              (''evidence'', VList [])], s')
          else
            ([(''valid'', VBool False),
              (''metadata'', VMap
                 [(''reason'', VStr (''Failed primitives: '' @
                     fmt_v (failedPrimitives 0 (pa_primitives p) results)))]),
              (''evidence'', VList [])], s'))"

record ('c, 'w) thresholdPrimitive =
  th_primitives :: "('c, 'w) GovernancePrimitive list"
  th_k :: int

definition Threshold ::
  "('c, 'w) GovernancePrimitive list \<Rightarrow> int \<Rightarrow> ('c, 'w) thresholdPrimitive" where
  "Threshold ps k = \<lparr>th_primitives = ps, th_k = k\<rparr>"

text \<open>The count \<^verbatim>\<open>for _, r := range results { if r { passedCount++ } }\<close>.\<close>

fun passedCount :: "bool list \<Rightarrow> int" where
  "passedCount [] = 0"
| "passedCount (r # rs) = (if r then passedCount rs + 1 else passedCount rs)"

definition thresholdPrimitive_Evaluate ::
  "('c, 'w) thresholdPrimitive \<Rightarrow> 'c \<Rightarrow> 'w run \<Rightarrow> gomap \<times> 'w run" where
  "thresholdPrimitive_Evaluate p c s =
     (case collect_results 0 (th_primitives p) c s of
        (results, s') \<Rightarrow>
          if passedCount results \<ge> th_k p then
            ([(''valid'', VBool True),
              (''metadata'', VMap
                 [(''message'', VStr (fmt_d (passedCount results) @ '' of '' @
                     fmt_d (int (length (th_primitives p))) @ '' primitives passed''))]),
              (''evidence'', VList [])], s')
          else
            ([(''valid'', VBool False),
              (''metadata'', VMap
                 [(''reason'', VStr (''Only '' @ fmt_d (passedCount results) @ '' of '' @
                     fmt_d (int (length (th_primitives p))) @
                     '' primitives passed, need at least '' @ fmt_d (th_k p)))]),
              (''evidence'', VList [])], s'))"

section \<open>Errors\<close>

text \<open>
  A Go \<^verbatim>\<open>error\<close> is \<^verbatim>\<open>nil\<close> (\<open>None\<close>) or one of the two error types the package
  builds: its own \<^verbatim>\<open>NonDeterministicPrimitiveError\<close>, or the value of
  \<^verbatim>\<open>errors.New\<close> and \<^verbatim>\<open>fmt.Errorf\<close>.
\<close>

datatype error = NonDeterministicPrimitiveError string | errorString string

fun Error :: "error \<Rightarrow> string" where
  "Error (NonDeterministicPrimitiveError msg) = msg"
| "Error (errorString msg) = msg"

text \<open>A string between single quotes, as \<^verbatim>\<open>'%s'\<close> formats it.\<close>

definition quoted :: "string \<Rightarrow> string" where
  "quoted s = CHR 0x27 # s @ [CHR 0x27]"

section \<open>JSON encoding\<close>

text \<open>
  \<^verbatim>\<open>encoding/json\<close> is Go's library, outside the repository; it is modelled at the
  level of documents: the bytes \<^verbatim>\<open>json.Marshal\<close> returns are the document they spell.
  What the library does to the data is kept:
  \<^item> the encoder writes the entries of every map by sorted key (the keys compared as
    byte strings);
  \<^item> it writes a string, and a key, with every byte that is not part of a well-formed
    UTF-8 sequence replaced by U+FFFD, and the decoder reads the result back as written;
  \<^item> it fails on the first value of an unsupported type it meets on its way;
  \<^item> the decoder refuses a text nested deeper than 10000 arrays and objects;
  \<^item> it assigns the fields of an object in the order of the text, so that of two
    fields with one key the later stays;
  \<^item> decoding into an \<^verbatim>\<open>interface{}\<close>, it reads every number as a \<^verbatim>\<open>float64\<close>.
\<close>

subsection \<open>Well-formed UTF-8\<close>

text \<open>
  \<^verbatim>\<open>utf8.DecodeRuneInString\<close>: the width of the rune at the head of the bytes, and 0
  where Go returns \<^verbatim>\<open>(RuneError, 1)\<close>, the head being no start of a well-formed
  sequence. After the first byte, the second has a range of its own and the others are
  continuation bytes \<^verbatim>\<open>80..BF\<close>.
\<close>

definition in_range :: "nat \<Rightarrow> nat \<Rightarrow> char \<Rightarrow> bool" where
  "in_range lo hi c \<longleftrightarrow> lo \<le> of_char c \<and> of_char c \<le> hi"

definition continuation :: "nat \<Rightarrow> nat \<Rightarrow> nat \<Rightarrow> string \<Rightarrow> nat" where
  "continuation sz lo hi rest =
     (if length rest < sz - 1 then 0
      else if \<not> in_range lo hi (rest ! 0) then 0
      else if list_all (in_range 0x80 0xBF) (take (sz - 2) (drop 1 rest)) then sz
      else 0)"

definition rune_width :: "string \<Rightarrow> nat" where
  "rune_width s =
     (case s of
        [] \<Rightarrow> 0
      | b # rest \<Rightarrow>
          (let x = (of_char b :: nat) in
           if x < 0x80 then 1
           else if 0xC2 \<le> x \<and> x \<le> 0xDF then continuation 2 0x80 0xBF rest
           else if x = 0xE0 then continuation 3 0xA0 0xBF rest
           else if x = 0xED then continuation 3 0x80 0x9F rest
           else if 0xE1 \<le> x \<and> x \<le> 0xEF then continuation 3 0x80 0xBF rest
           else if x = 0xF0 then continuation 4 0x90 0xBF rest
           else if 0xF1 \<le> x \<and> x \<le> 0xF3 then continuation 4 0x80 0xBF rest
           else if x = 0xF4 then continuation 4 0x80 0x8F rest
           else 0))"

text \<open>
  The string the encoder writes for \<open>s\<close>, as the decoder reads it back: a byte that
  starts no well-formed sequence becomes the three bytes of U+FFFD, every other rune is
  copied. The first argument counts the bytes still to copy of the rune being copied.
\<close>

fun coerce_from :: "nat \<Rightarrow> string \<Rightarrow> string" where
  "coerce_from k [] = []"
| "coerce_from (Suc k) (b # rest) = b # coerce_from k rest"
| "coerce_from 0 (b # rest) =
     (if rune_width (b # rest) = 0 then CHR 0xEF # CHR 0xBF # CHR 0xBD # coerce_from 0 rest
      else b # coerce_from (rune_width (b # rest) - 1) rest)"

definition coerce :: "string \<Rightarrow> string" where
  "coerce s = coerce_from 0 s"

subsection \<open>Documents\<close>

text \<open>
  A number of a document is the digits of an integer, or the shortest decimal that
  reads back as a given \<^verbatim>\<open>float64\<close>. A whole \<^verbatim>\<open>float64\<close> up to \<open>2^53\<close> in magnitude is
  written with the digits of the integer it is. Beyond, the digits a \<^verbatim>\<open>float64\<close> is
  written with are those of its shortest decimal, which is another number in general:
  such a number is kept apart from every integer, so that no two documents are
  identified whose bytes differ.
\<close>

datatype number = Integer int | Float64 rat

datatype json =
    JNull
  | JBool bool
  | JNumber number
  | JString string
  | JArray "json list"
  | JObject "(string \<times> json) list"

definition number_of_float :: "rat \<Rightarrow> number" where
  "number_of_float q =
     (if of_int \<lfloor>q\<rfloor> = q \<and> \<bar>q\<bar> \<le> 2 ^ 53 then Integer \<lfloor>q\<rfloor> else Float64 q)"

text \<open>The order in which the encoder visits a value: every map by sorted keys.\<close>

primrec sort_keys :: "val \<Rightarrow> val" where
  "sort_keys VNil = VNil"
| "sort_keys (VBool b) = VBool b"
| "sort_keys (VInt n) = VInt n"
| "sort_keys (VFloat q) = VFloat q"
| "sort_keys (VStr s) = VStr s"
| "sort_keys (VList xs) = VList (map sort_keys xs)"
| "sort_keys (VMap kvs) = VMap (sort_key fst (map (map_prod id sort_keys) kvs))"
| "sort_keys (VUnsupported t) = VUnsupported t"

fun encode :: "val \<Rightarrow> string + json"
  and encode_list :: "val list \<Rightarrow> string + json list"
  and encode_fields :: "(string \<times> val) list \<Rightarrow> string + (string \<times> json) list" where
  "encode VNil = Inr JNull"
| "encode (VBool b) = Inr (JBool b)"
| "encode (VInt n) = Inr (JNumber (Integer n))"
| "encode (VFloat q) = Inr (JNumber (number_of_float q))"
| "encode (VStr s) = Inr (JString (coerce s))"
| "encode (VList xs) =
     (case encode_list xs of Inl e \<Rightarrow> Inl e | Inr js \<Rightarrow> Inr (JArray js))"
| "encode (VMap kvs) =
     (case encode_fields kvs of Inl e \<Rightarrow> Inl e | Inr fs \<Rightarrow> Inr (JObject fs))"
| "encode (VUnsupported t) = Inl (''json: unsupported type: '' @ t)"
| "encode_list [] = Inr []"
| "encode_list (x # xs) =
     (case encode x of
        Inl e \<Rightarrow> Inl e
      | Inr j \<Rightarrow> (case encode_list xs of Inl e \<Rightarrow> Inl e | Inr js \<Rightarrow> Inr (j # js)))"
| "encode_fields [] = Inr []"
| "encode_fields ((k, v) # kvs) =
     (case encode v of
        Inl e \<Rightarrow> Inl e
      | Inr j \<Rightarrow>
          (case encode_fields kvs of Inl e \<Rightarrow> Inl e | Inr fs \<Rightarrow> Inr ((coerce k, j) # fs)))"

text \<open>
  \<^verbatim>\<open>json.Marshal(m)\<close> for a \<^verbatim>\<open>map[string]interface{}\<close>: \<open>Inl\<close> the error's message,
  \<open>Inr\<close> the document.
\<close>

definition json_Marshal :: "gomap \<Rightarrow> string + json" where
  "json_Marshal m = encode (sort_keys (VMap m))"

text \<open>
  The \<^verbatim>\<open>float64\<close> nearest to an integer, ties to the even mantissa (53 bits), as the
  decoder's \<^verbatim>\<open>strconv.ParseFloat\<close> and Go's conversion \<^verbatim>\<open>float64(n)\<close> both round.
  Go's integers (from \<open>-2^63\<close> to \<open>2^64 - 1\<close>) are far inside the range of \<^verbatim>\<open>float64\<close>,
  so there is no overflow.
\<close>

definition float64_of_int :: "int \<Rightarrow> int" where
  "float64_of_int n =
     (let a = \<bar>n\<bar>; sh = nat (bitlen a - 53) in
      if sh = 0 then n
      else
        let q = a div 2 ^ sh; r = a mod 2 ^ sh; half = 2 ^ (sh - 1);
            q' = (if r > half \<or> (r = half \<and> odd q) then q + 1 else q)
        in sgn n * q' * 2 ^ sh)"

text \<open>The \<^verbatim>\<open>float64\<close> a number of a document is read as.\<close>

fun float64_of_number :: "number \<Rightarrow> rat" where
  "float64_of_number (Integer n) = of_int (float64_of_int n)"
| "float64_of_number (Float64 q) = q"

text \<open>
  The map an object fills, field after field: \<^verbatim>\<open>m[key] = value\<close> in the order of
  the text.
\<close>

definition assign_all :: "(string \<times> 'a) list \<Rightarrow> (string \<times> 'a) list" where
  "assign_all fs = foldl (\<lambda>m (k, v). AList.update k v m) [] fs"

text \<open>
  Decoding into an \<^verbatim>\<open>interface{}\<close>: every number becomes a \<^verbatim>\<open>float64\<close>, an array a
  \<^verbatim>\<open>[]interface{}\<close>, an object a \<^verbatim>\<open>map[string]interface{}\<close>.
\<close>

primrec decode :: "json \<Rightarrow> val" where
  "decode JNull = VNil"
| "decode (JBool b) = VBool b"
| "decode (JNumber x) = VFloat (float64_of_number x)"
| "decode (JString s) = VStr s"
| "decode (JArray js) = VList (map decode js)"
| "decode (JObject fs) = VMap (assign_all (map (map_prod id decode) fs))"

text \<open>
  How deep the arrays and objects of a document are nested; an empty array or object
  counts for one.
\<close>

primrec depth :: "json \<Rightarrow> nat" where
  "depth JNull = 0"
| "depth (JBool b) = 0"
| "depth (JNumber x) = 0"
| "depth (JString s) = 0"
| "depth (JArray js) = Suc (foldr max (map depth js) 0)"
| "depth (JObject fs) = Suc (foldr max (map snd (map (map_prod id depth) fs)) 0)"

text \<open>
  \<^verbatim>\<open>json.Unmarshal(bytes, &result)\<close> with \<^verbatim>\<open>result\<close> a \<^verbatim>\<open>map[string]interface{}\<close>.
  The text is checked first, and refused when it is nested deeper than 10000. Then an
  object fills the map, \<^verbatim>\<open>null\<close> leaves it \<^verbatim>\<open>nil\<close> (which reads as the empty map), and
  anything else is an error.
\<close>

definition json_Unmarshal :: "json \<Rightarrow> string + gomap" where
  "json_Unmarshal j =
     (if depth j > 10000 then Inl ''exceeded max depth''
      else
        (case j of
           JObject fs \<Rightarrow> Inr (assign_all (map (map_prod id decode) fs))
         | JNull \<Rightarrow> Inr []
         | _ \<Rightarrow>
             Inl ''json: cannot unmarshal value into Go value of type map[string]interface {}''))"

section \<open>Deterministic context\<close>

record DeterministicContext =
  dc_data :: gomap
  dc_time :: int

text \<open>The argument \<^verbatim>\<open>d\<close> of \<^verbatim>\<open>deepCopy\<close> may be the \<^verbatim>\<open>nil\<close> map: \<open>None\<close>.\<close>

definition deepCopy :: "gomap option \<Rightarrow> gomap" where
  "deepCopy d =
     (case d of
        None \<Rightarrow> []
      | Some m \<Rightarrow>
          (case json_Marshal m of
             Inl err \<Rightarrow> []
           | Inr bytes \<Rightarrow>
               (case json_Unmarshal bytes of
                  Inl err \<Rightarrow> []
                | Inr result \<Rightarrow> result)))"

definition NewDeterministicContext :: "gomap option \<Rightarrow> int \<Rightarrow> DeterministicContext" where
  "NewDeterministicContext d logicalTime =
     \<lparr>dc_data = deepCopy d, dc_time = logicalTime\<rparr>"

primrec deepCopyValue :: "val \<Rightarrow> val" where
  "deepCopyValue VNil = VNil"
| "deepCopyValue (VMap kvs) = VMap (map (map_prod id deepCopyValue) kvs)"
| "deepCopyValue (VList xs) = VList (map deepCopyValue xs)"
| "deepCopyValue (VBool b) = VBool b"
| "deepCopyValue (VInt n) = VInt n"
| "deepCopyValue (VFloat q) = VFloat q"
| "deepCopyValue (VStr s) = VStr s"
| "deepCopyValue (VUnsupported t) = VUnsupported t"

definition Get :: "DeterministicContext \<Rightarrow> string \<Rightarrow> val \<Rightarrow> val" where
  "Get dc key defaultValue =
     (case map_of (dc_data dc) key of
        Some v \<Rightarrow> deepCopyValue v
      | None \<Rightarrow> defaultValue)"

definition Has :: "DeterministicContext \<Rightarrow> string \<Rightarrow> bool" where
  "Has dc key = (case map_of (dc_data dc) key of Some v \<Rightarrow> True | None \<Rightarrow> False)"

definition Time :: "DeterministicContext \<Rightarrow> int" where
  "Time dc = dc_time dc"

definition GetItem :: "DeterministicContext \<Rightarrow> string \<Rightarrow> val \<times> error option" where
  "GetItem dc key =
     (case map_of (dc_data dc) key of
        Some v \<Rightarrow> (deepCopyValue v, None)
      | None \<Rightarrow> (VNil, Some (errorString (''key '' @ quoted key @ '' not found''))))"

definition SetItem :: "DeterministicContext \<Rightarrow> string \<Rightarrow> val \<Rightarrow> error option" where
  "SetItem dc key v = Some (errorString ''context is immutable'')"

definition DeleteItem :: "DeterministicContext \<Rightarrow> string \<Rightarrow> error option" where
  "DeleteItem dc key = Some (errorString ''context is immutable'')"

section \<open>Proof generator\<close>

text \<open>
  A \<^verbatim>\<open>[]byte\<close> handed to \<^verbatim>\<open>sha256.Sum256\<close> is either what \<^verbatim>\<open>json.Marshal\<close> returned
  or the bytes of a string. \<^verbatim>\<open>crypto/sha256\<close> is Go's library: the digest function is a
  parameter \<open>sha256\<close> of every operation that hashes.
\<close>

datatype bytes = Document json | Text string

text \<open>\<^verbatim>\<open>fmt.Sprintf("%x", digest)\<close>: two lowercase hexadecimal digits for every byte.\<close>

definition hex_byte :: "8 word \<Rightarrow> string" where
  "hex_byte b = [digit (unat b div 16), digit (unat b mod 16)]"

definition fmt_x :: "8 word list \<Rightarrow> string" where
  "fmt_x digest = concat (map hex_byte digest)"

record GovernanceProof =
  PrimitiveVersions :: "string \<rightharpoonup> string"
  EvaluationOrder :: "string list"
  Decision :: bool
  SignalCommitments :: "string list"
  GeneratedAt :: int

text \<open>
  \<^verbatim>\<open>ProofGenerator.CommitSignal\<close>, the one \<^verbatim>\<open>GenerateProofWithTime\<close> calls. Its local
  map \<^verbatim>\<open>signalData\<close> holds \<^verbatim>\<open>valid\<close> and \<^verbatim>\<open>metadata\<close>, and \<^verbatim>\<open>timestamp\<close> when the
  result has that key.
\<close>

definition signalData :: "gomap \<Rightarrow> gomap" where
  "signalData result =
     [(''valid'', index result ''valid''), (''metadata'', index result ''metadata'')] @
     (case map_of result ''timestamp'' of
        Some ts \<Rightarrow> [(''timestamp'', ts)]
      | None \<Rightarrow> [])"

definition CommitSignal :: "(bytes \<Rightarrow> 8 word list) \<Rightarrow> gomap \<Rightarrow> string" where
  "CommitSignal sha256 result =
     (case json_Marshal (signalData result) of
        Inl err \<Rightarrow> ''error:'' @ fmt_x (sha256 (Text err))
      | Inr data \<Rightarrow> fmt_x (sha256 (Document data)))"

definition GenerateProofWithTime ::
  "(bytes \<Rightarrow> 8 word list) \<Rightarrow> bool \<Rightarrow> string list \<Rightarrow> gomap list \<Rightarrow> (string \<rightharpoonup> string) \<Rightarrow>
     int \<Rightarrow> GovernanceProof" where
  "GenerateProofWithTime sha256 decision evaluatedPrimitives signals primitiveVersions
       logicalTime =
     \<lparr>PrimitiveVersions = primitiveVersions,
      EvaluationOrder = evaluatedPrimitives,
      Decision = decision,
      SignalCommitments = map (CommitSignal sha256) signals,
      GeneratedAt = logicalTime\<rparr>"

text \<open>
  \<^verbatim>\<open>GenerateProof\<close> reads the wall clock: \<open>now\<close> is the value of
  \<^verbatim>\<open>time.Now().UnixNano()\<close> at the call.
\<close>

definition GenerateProof ::
  "(bytes \<Rightarrow> 8 word list) \<Rightarrow> int \<Rightarrow> bool \<Rightarrow> string list \<Rightarrow> gomap list \<Rightarrow>
     (string \<rightharpoonup> string) \<Rightarrow> GovernanceProof" where
  "GenerateProof sha256 now decision evaluatedPrimitives signals primitiveVersions =
     GenerateProofWithTime sha256 decision evaluatedPrimitives signals primitiveVersions now"

section \<open>Governance engine\<close>

record GovernanceDecision =
  Permitted :: bool
  Signals :: "gomap list"
  FailureReasons :: "string list"
  Proof :: "GovernanceProof option"

record 'w GovernanceEngine =
  primitives :: "(DeterministicContext, 'w) GovernancePrimitive list"
  primitiveIDs :: "string list"
  versions :: "string \<rightharpoonup> string"

definition NewGovernanceEngine :: "'w GovernanceEngine" where
  "NewGovernanceEngine = \<lparr>primitives = [], primitiveIDs = [], versions = Map.empty\<rparr>"

text \<open>
  \<^verbatim>\<open>RegisterPrimitive\<close>: the error returned and the engine afterwards. A \<^verbatim>\<open>nil\<close>
  primitive is \<open>None\<close>.
\<close>

definition RegisterPrimitive ::
  "string \<Rightarrow> (DeterministicContext, 'w) GovernancePrimitive option \<Rightarrow> 'w GovernanceEngine \<Rightarrow>
     error option \<times> 'w GovernanceEngine" where
  "RegisterPrimitive id' p ge =
     (case p of
        None \<Rightarrow> (Some (errorString ''primitive cannot be nil''), ge)
      | Some q \<Rightarrow>
          if id' = [] then (Some (errorString ''primitive ID cannot be empty''), ge)
          else if list_ex (\<lambda>existingID. existingID = id') (primitiveIDs ge) then
            (Some (errorString (''primitive with ID '' @ quoted id' @ '' already registered'')),
             ge)
          else
            (None,
             ge\<lparr>primitives := primitives ge @ [q],
                primitiveIDs := primitiveIDs ge @ [id'],
                versions := (versions ge)(id' \<mapsto> Version q)\<rparr>))"

definition PrimitiveCount :: "'w GovernanceEngine \<Rightarrow> nat" where
  "PrimitiveCount ge = length (primitives ge)"

definition Clear :: "'w GovernanceEngine \<Rightarrow> 'w GovernanceEngine" where
  "Clear ge = ge\<lparr>primitives := [], primitiveIDs := [], versions := Map.empty\<rparr>"

text \<open>\<^verbatim>\<open>ge.versions[id]\<close>: the empty string when the id has no entry.\<close>

definition version_of :: "(string \<rightharpoonup> string) \<Rightarrow> string \<Rightarrow> string" where
  "version_of vs id' = (case vs id' of Some v \<Rightarrow> v | None \<Rightarrow> [])"

text \<open>The failure reason the engine records for the primitive \<open>id'\<close> and its result.\<close>

definition failure_reason :: "string \<Rightarrow> gomap \<Rightarrow> string" where
  "failure_reason id' result =
     (case index result ''metadata'' of
        VMap meta \<Rightarrow>
          (case index meta ''reason'' of
             VStr r \<Rightarrow> ''Primitive '' @ quoted id' @ '' failed: '' @ r
           | _ \<Rightarrow> ''Primitive '' @ quoted id' @ '' failed'')
      | _ \<Rightarrow> ''Primitive '' @ quoted id' @ '' failed'')"

text \<open>
  The loop of \<^verbatim>\<open>Evaluate\<close> from position \<open>i\<close> on, over the primitives still to
  visit. \<^verbatim>\<open>ge.primitiveIDs[i]\<close> panics when \<open>i\<close> is out of range: the loop then
  returns \<open>None\<close>.
\<close>

fun evaluate_loop ::
  "'w GovernanceEngine \<Rightarrow> DeterministicContext \<Rightarrow> nat \<Rightarrow>
     (DeterministicContext, 'w) GovernancePrimitive list \<Rightarrow> GovernanceDecision \<Rightarrow> 'w run \<Rightarrow>
     (GovernanceDecision \<times> 'w run) option" where
  "evaluate_loop ge ctx i [] decision s = Some (decision, s)"
| "evaluate_loop ge ctx i (primitive # rest) decision s =
     (if i < length (primitiveIDs ge) then
        (let id' = primitiveIDs ge ! i in
         case invoke i primitive ctx s of
           (result, s') \<Rightarrow>
             (let signal =
                    [(''primitive_id'', VStr id'),
                     (''version'', VStr (version_of (versions ge) id')),
                     (''valid'', index result ''valid''),
                     (''metadata'', index result ''metadata''),
                     (''evidence'', index result ''evidence'')];
                  decision' = decision\<lparr>Signals := Signals decision @ [signal]\<rparr>
              in case assert_bool (index result ''valid'') of
                   (valid, ok) \<Rightarrow>
                     if \<not> ok \<or> \<not> valid then
                       Some (decision'\<lparr>Permitted := False,
                               FailureReasons :=
                                 FailureReasons decision' @ [failure_reason id' result]\<rparr>, s')
                     else evaluate_loop ge ctx (Suc i) rest decision' s'))
      else None)"

text \<open>
  The loop that fills \<^verbatim>\<open>evaluatedIDs\<close>: \<^verbatim>\<open>sig["primitive_id"].(string)\<close> panics
  (\<open>None\<close>) when the entry is not a string.
\<close>

fun evaluatedIDs :: "gomap list \<Rightarrow> string list option" where
  "evaluatedIDs [] = Some []"
| "evaluatedIDs (sig # sigs) =
     (case index sig ''primitive_id'' of
        VStr id' \<Rightarrow>
          (case evaluatedIDs sigs of Some ids \<Rightarrow> Some (id' # ids) | None \<Rightarrow> None)
      | _ \<Rightarrow> None)"

text \<open>
  \<^verbatim>\<open>GovernanceEngine.Evaluate\<close>: \<open>None\<close> when the call panics, else the decision and
  the state of the run afterwards. \<open>now\<close> is the wall clock \<^verbatim>\<open>GenerateProof\<close> reads.
\<close>

definition Evaluate_engine ::
  "(bytes \<Rightarrow> 8 word list) \<Rightarrow> int \<Rightarrow> 'w GovernanceEngine \<Rightarrow> DeterministicContext \<Rightarrow> 'w run \<Rightarrow>
     (GovernanceDecision \<times> 'w run) option" where
  "Evaluate_engine sha256 now ge ctx s =
     (case evaluate_loop ge ctx 0 (primitives ge)
             \<lparr>Permitted = True, Signals = [], FailureReasons = [], Proof = None\<rparr> s of
        None \<Rightarrow> None
      | Some (decision, s') \<Rightarrow>
          (case evaluatedIDs (Signals decision) of
             None \<Rightarrow> None
           | Some ids \<Rightarrow>
               Some (decision\<lparr>Proof := Some (GenerateProof sha256 now (Permitted decision) ids
                                  (Signals decision) (versions ge))\<rparr>, s')))"

definition EvaluateWithLogicalTime ::
  "(bytes \<Rightarrow> 8 word list) \<Rightarrow> 'w GovernanceEngine \<Rightarrow> DeterministicContext \<Rightarrow> int \<Rightarrow> 'w run \<Rightarrow>
     (GovernanceDecision \<times> 'w run) option" where
  "EvaluateWithLogicalTime sha256 ge ctx logicalTime s =
     (case evaluate_loop ge ctx 0 (primitives ge)
             \<lparr>Permitted = True, Signals = [], FailureReasons = [], Proof = None\<rparr> s of
        None \<Rightarrow> None
      | Some (decision, s') \<Rightarrow>
          (case evaluatedIDs (Signals decision) of
             None \<Rightarrow> None
           | Some ids \<Rightarrow>
               Some (decision\<lparr>Proof := Some (GenerateProofWithTime sha256 (Permitted decision)
                                  ids (Signals decision) (versions ge) logicalTime)\<rparr>, s')))"

section \<open>Compliance checker\<close>

record ComplianceViolation =
  Primitive :: string
  Requirement :: string
  Details :: string

record ComplianceReport =
  Compliant :: bool
  Violations :: "ComplianceViolation list"
  Checked :: "string list"

text \<open>
  \<^verbatim>\<open>CheckPrimitive\<close> returns \<^verbatim>\<open>(*ComplianceReport, error)\<close>, either of which may be
  \<^verbatim>\<open>nil\<close>; the one call of \<^verbatim>\<open>p.Evaluate\<close> is logged at position 0.
\<close>

definition CheckPrimitive ::
  "(DeterministicContext, 'w) GovernancePrimitive option \<Rightarrow> 'w run \<Rightarrow>
     (ComplianceReport option \<times> error option) \<times> 'w run" where
  "CheckPrimitive p s =
     (case p of
        None \<Rightarrow> ((None, Some (errorString ''primitive cannot be nil'')), s)
      | Some q \<Rightarrow>
          (let report = \<lparr>Compliant = True, Violations = [],
                         Checked = [''version'', ''evaluate_contract'']\<rparr>;
               name = (case Name q of Some n \<Rightarrow> n | None \<Rightarrow> ''unknown'');
               version = Version q;
               report1 =
                 (if version = [] then
                    report\<lparr>Compliant := False,
                           Violations := Violations report @
                             [\<lparr>Primitive = name, Requirement = ''version'',
                               Details = ''Version() must return non-empty string''\<rparr>]\<rparr>
                  else report);
               testCtx = NewDeterministicContext (Some []) 0
           in case invoke 0 q testCtx s of
                (result, s') \<Rightarrow>
                  (let report2 =
                         (case map_of result ''valid'' of
                            None \<Rightarrow>
                              report1\<lparr>Compliant := False,
                                      Violations := Violations report1 @
                                        [\<lparr>Primitive = name, Requirement = ''evaluate_contract'',
                                          Details =
                                            ''Evaluate() must return map with '' @
                                            quoted ''valid'' @ '' key''\<rparr>]\<rparr>
                          | Some v \<Rightarrow> report1)
                   in ((Some report2, None), s'))))"

section \<open>Determinism enforcer\<close>

text \<open>
  \<^verbatim>\<open>strings.TrimSpace\<close> and \<^verbatim>\<open>regexp\<close> read the source text rune by rune (a byte
  that is not UTF-8 reads as U+FFFD), so the text is the list of its runes, each a code
  point. \<open>runes\<close> gives the runes of an ASCII literal.
\<close>

type_synonym rune = nat

definition runes :: "string \<Rightarrow> rune list" where
  "runes s = map of_char s"

text \<open>\<^verbatim>\<open>unicode.IsSpace\<close>: the code points with Unicode's White Space property.\<close>

definition IsSpace :: "rune \<Rightarrow> bool" where
  "IsSpace r \<longleftrightarrow>
     (9 \<le> r \<and> r \<le> 13) \<or> r = 32 \<or> r = 0x85 \<or> r = 0xA0 \<or> r = 0x1680 \<or>
     (0x2000 \<le> r \<and> r \<le> 0x200A) \<or> r = 0x2028 \<or> r = 0x2029 \<or> r = 0x202F \<or>
     r = 0x205F \<or> r = 0x3000"

definition TrimSpace :: "rune list \<Rightarrow> rune list" where
  "TrimSpace s = rev (dropWhile IsSpace (rev (dropWhile IsSpace s)))"

text \<open>
  The patterns the enforcer compiles use literals, \<^verbatim>\<open>\s+\<close>, \<^verbatim>\<open>\s*\<close>, \<^verbatim>\<open>\w+\<close> and
  \<^verbatim>\<open>\b\<close> only. In Go's syntax \<^verbatim>\<open>\s\<close> is \<^verbatim>\<open>[\t\n\f\r ]\<close>, \<^verbatim>\<open>\w\<close> is
  \<^verbatim>\<open>[0-9A-Za-z_]\<close>, and \<^verbatim>\<open>\b\<close> holds between a \<^verbatim>\<open>\w\<close> rune and a rune that is not,
  the ends of the text counting as not.
\<close>

datatype cclass = Space | Word

datatype atom = Lit rune | Plus cclass | Star cclass | Boundary

type_synonym regex = "atom list"

definition is_s :: "rune \<Rightarrow> bool" where
  "is_s r \<longleftrightarrow> r = 9 \<or> r = 10 \<or> r = 12 \<or> r = 13 \<or> r = 32"

definition is_w :: "rune \<Rightarrow> bool" where
  "is_w r \<longleftrightarrow> (48 \<le> r \<and> r \<le> 57) \<or> (65 \<le> r \<and> r \<le> 90) \<or> r = 95 \<or> (97 \<le> r \<and> r \<le> 122)"

fun in_class :: "cclass \<Rightarrow> rune \<Rightarrow> bool" where
  "in_class Space r = is_s r"
| "in_class Word r = is_w r"

fun word_at :: "rune option \<Rightarrow> bool" where
  "word_at None = False"
| "word_at (Some r) = is_w r"

fun next_rune :: "rune list \<Rightarrow> rune option" where
  "next_rune [] = None"
| "next_rune (x # xs) = Some x"

text \<open>
  \<open>match_here re prev s\<close>: the pattern matches a prefix of \<open>s\<close>, where \<open>prev\<close> is the
  rune before \<open>s\<close> in the text (\<open>None\<close> at its start).
\<close>

fun match_here :: "regex \<Rightarrow> rune option \<Rightarrow> rune list \<Rightarrow> bool" where
  "match_here [] prev s = True"
| "match_here (Lit c # re) prev [] = False"
| "match_here (Lit c # re) prev (x # xs) =
     (if x = c then match_here re (Some x) xs else False)"
| "match_here (Plus cl # re) prev [] = False"
| "match_here (Plus cl # re) prev (x # xs) =
     (if in_class cl x then match_here (Star cl # re) (Some x) xs else False)"
| "match_here (Star cl # re) prev [] = match_here re prev []"
| "match_here (Star cl # re) prev (x # xs) =
     (if match_here re prev (x # xs) then True
      else if in_class cl x then match_here (Star cl # re) (Some x) xs
      else False)"
| "match_here (Boundary # re) prev s =
     (if word_at prev \<noteq> word_at (next_rune s) then match_here re prev s else False)"

fun match_from :: "regex \<Rightarrow> rune option \<Rightarrow> rune list \<Rightarrow> bool" where
  "match_from re prev [] = match_here re prev []"
| "match_from re prev (x # xs) =
     (if match_here re prev (x # xs) then True else match_from re (Some x) xs)"

text \<open>\<^verbatim>\<open>re.MatchString(s)\<close>: the pattern matches somewhere in \<open>s\<close>.\<close>

definition MatchString :: "regex \<Rightarrow> rune list \<Rightarrow> bool" where
  "MatchString re s = match_from re None s"

text \<open>
  A literal piece of a pattern. \<^verbatim>\<open>regexp.QuoteMeta\<close> escapes the metacharacters of a
  name, so that the name stands in the pattern for itself.
\<close>

definition lit :: "string \<Rightarrow> regex" where
  "lit s = map (\<lambda>c. Lit (of_char c)) s"

definition BannedImports :: "string list" where
  "BannedImports =
     [''time'', ''datetime'', ''random'', ''os'', ''sys'',
      ''socket'', ''urllib'', ''requests'', ''subprocess'',
      ''threading'', ''multiprocessing'', ''asyncio'']"

definition BannedFunctions :: "string list" where
  "BannedFunctions =
     [''time.Now'', ''time.Since'', ''time.Until'', ''time.Sleep'',
      ''rand.Int'', ''rand.Float'', ''rand.Intn'', ''rand.Read'',
      ''os.Getenv'', ''os.Setenv'', ''os.Open'', ''os.Create'',
      ''os.ReadFile'', ''os.WriteFile'', ''os.Remove'',
      ''net.Dial'', ''net.Listen'', ''http.Get'', ''http.Post'',
      ''exec.Command'', ''fmt.Print'', ''fmt.Println'',
      ''log.Print'', ''log.Println'', ''log.Printf'']"

text \<open>
  The three patterns of a banned import: \<^verbatim>\<open>import\s+"%s"\<close>, \<^verbatim>\<open>import\s+%s\b\<close> and
  \<^verbatim>\<open>from\s+%s\s+import\<close> (34 is the double quote).
\<close>

definition import_patterns :: "string \<Rightarrow> regex list" where
  "import_patterns imp =
     [lit ''import'' @ [Plus Space, Lit 34] @ lit imp @ [Lit 34],
      lit ''import'' @ [Plus Space] @ lit imp @ [Boundary],
      lit ''from'' @ [Plus Space] @ lit imp @ [Plus Space] @ lit ''import'']"

text \<open>The pattern of a banned call: the quoted name, then \<^verbatim>\<open>\s*\(\<close>.\<close>

definition function_pattern :: "string \<Rightarrow> regex" where
  "function_pattern fn = lit fn @ [Star Space] @ lit ''(''"

text \<open>
  \<^verbatim>\<open>var\s+\w+\s*=\s*make\s*\(\<close>, \<^verbatim>\<open>var\s+\w+\s*=\s*\[\]\<close> and
  \<^verbatim>\<open>var\s+\w+\s*=\s*map\s*\[\<close>.
\<close>

definition globalMutablePatterns :: "regex list" where
  "globalMutablePatterns =
     [lit ''var'' @ [Plus Space, Plus Word, Star Space] @ lit ''='' @ [Star Space] @
        lit ''make'' @ [Star Space] @ lit ''('',
      lit ''var'' @ [Plus Space, Plus Word, Star Space] @ lit ''='' @ [Star Space] @
        lit ''[]'',
      lit ''var'' @ [Plus Space, Plus Word, Star Space] @ lit ''='' @ [Star Space] @
        lit ''map'' @ [Star Space] @ lit ''['']"

text \<open>The violations each of the four checks appends, in the order of the source.\<close>

definition import_violations :: "rune list \<Rightarrow> string list" where
  "import_violations sourceCode =
     concat (map (\<lambda>imp.
       concat (map (\<lambda>pattern.
         if MatchString pattern sourceCode
         then [''Banned import '' @ quoted imp @ '' found''] else [])
         (import_patterns imp)))
       BannedImports)"

definition function_violations :: "rune list \<Rightarrow> string list" where
  "function_violations sourceCode =
     concat (map (\<lambda>fn.
       if MatchString (function_pattern fn) sourceCode
       then [''Banned function '' @ quoted fn @ '' found''] else [])
       BannedFunctions)"

definition dynamic_import_violations :: "rune list \<Rightarrow> string list" where
  "dynamic_import_violations sourceCode =
     (if Contains sourceCode (runes ''__import__'')
      then [''Direct __import__ call detected - use import statements instead'']
      else [])"

definition global_state_violations :: "rune list \<Rightarrow> string list" where
  "global_state_violations sourceCode =
     (if list_ex (\<lambda>pattern. MatchString pattern sourceCode) globalMutablePatterns
      then [''Potential global mutable state detected'']
      else [])"

definition ValidateDeterministic :: "rune list \<Rightarrow> error option" where
  "ValidateDeterministic sourceCode =
     (if TrimSpace sourceCode = [] then
        Some (NonDeterministicPrimitiveError ''empty source code'')
      else
        (let violations =
               import_violations sourceCode @ function_violations sourceCode @
               dynamic_import_violations sourceCode @ global_state_violations sourceCode
         in if length violations > 0
            then Some (NonDeterministicPrimitiveError (Join violations ''; ''))
            else None))"

section \<open>Test doubles\<close>

text \<open>
  The primitives of the repository's tests: \<^verbatim>\<open>MockPrimitive\<close> (named, with a fixed
  verdict), \<^verbatim>\<open>BadVersionPrimitive\<close> and \<^verbatim>\<open>BadEvaluatePrimitive\<close> (both unnamed). None
  of them touches the world.
\<close>

definition MockPrimitive :: "string \<Rightarrow> string \<Rightarrow> bool \<Rightarrow> ('c, 'w) GovernancePrimitive" where
  "MockPrimitive name version valid =
     \<lparr>Version = version,
      Evaluate = (\<lambda>ctx w.
        ([(''valid'', VBool valid),
          (''metadata'', VMap [(''primitive'', VStr name)]),
          (''evidence'', VList [])], w)),
      Name = Some name\<rparr>"

definition BadVersionPrimitive :: "('c, 'w) GovernancePrimitive" where
  "BadVersionPrimitive =
     \<lparr>Version = [], Evaluate = (\<lambda>ctx w. ([(''valid'', VBool True)], w)), Name = None\<rparr>"

definition BadEvaluatePrimitive :: "('c, 'w) GovernancePrimitive" where
  "BadEvaluatePrimitive =
     \<lparr>Version = ''1.0.0'', Evaluate = (\<lambda>ctx w. ([(''wrong_key'', VBool True)], w)),
      Name = None\<rparr>"

section \<open>Vocabulary of the properties\<close>

text \<open>
  \<open>run_all ps c w\<close>: the results and the final world when \<^verbatim>\<open>Evaluate\<close> of every
  primitive of \<open>ps\<close> is called once, in the order of the list, starting in world \<open>w\<close>.
\<close>

fun run_all ::
  "('c, 'w) GovernancePrimitive list \<Rightarrow> 'c \<Rightarrow> 'w \<Rightarrow> gomap list \<times> 'w" where
  "run_all [] c w = ([], w)"
| "run_all (p # ps) c w =
     (case Evaluate p c w of
        (r, w') \<Rightarrow> (case run_all ps c w' of (rs, w'') \<Rightarrow> (r # rs, w'')))"

text \<open>A result is valid when it has the key \<^verbatim>\<open>valid\<close> bound to the boolean \<^verbatim>\<open>true\<close>.\<close>

definition is_valid :: "gomap \<Rightarrow> bool" where
  "is_valid r \<longleftrightarrow> map_of r ''valid'' = Some (VBool True)"

text \<open>
  The names \<^verbatim>\<open>getPrimitiveName\<close> gives the primitives whose result is not valid, in
  the order of the list: every primitive is paired with its position and its result.
\<close>

definition failed_names ::
  "('c, 'w) GovernancePrimitive list \<Rightarrow> gomap list \<Rightarrow> string list" where
  "failed_names ps rs =
     map (\<lambda>((i, p), r). getPrimitiveName p i)
       (filter (\<lambda>(ip, r). \<not> is_valid r) (zip (enumerate 0 ps) rs))"

text \<open>
  The fixtures of the engine's tests: the registrations of
  \<^verbatim>\<open>TestGovernanceEngineFailClosed\<close>, an engine holding one primitive that denies, the
  empty context the tests evaluate in, and a stand-in for the digest function.
\<close>

definition fail_closed_engine :: "'w GovernanceEngine" where
  "fail_closed_engine =
     snd (RegisterPrimitive ''never_reached''
            (Some (MockPrimitive ''never_reached'' ''1.0.0'' True))
       (snd (RegisterPrimitive ''denied'' (Some (MockPrimitive ''denied'' ''1.0.0'' False))
          (snd (RegisterPrimitive ''auth'' (Some (MockPrimitive ''auth'' ''1.0.0'' True))
             NewGovernanceEngine)))))"

definition denied_engine :: "'w GovernanceEngine" where
  "denied_engine =
     snd (RegisterPrimitive ''denied'' (Some (MockPrimitive ''denied'' ''1.0.0'' False))
            NewGovernanceEngine)"

definition empty_context :: DeterministicContext where
  "empty_context = NewDeterministicContext (Some []) 0"

definition constant_digest :: "bytes \<Rightarrow> 8 word list" where
  "constant_digest b = [0x0A, 0xFF]"

text \<open>
  The engine states there are: the new engine, and what \<^verbatim>\<open>RegisterPrimitive\<close> (whether
  it accepts or refuses) and \<^verbatim>\<open>Clear\<close> make of one.
\<close>

inductive reachable :: "'w GovernanceEngine \<Rightarrow> bool" where
  new: "reachable NewGovernanceEngine"
| register: "reachable ge \<Longrightarrow> reachable (snd (RegisterPrimitive id' p ge))"
| clear: "reachable ge \<Longrightarrow> reachable (Clear ge)"

text \<open>A signal is valid when its \<^verbatim>\<open>valid\<close> entry is the boolean \<^verbatim>\<open>true\<close>.\<close>

definition signal_valid :: "gomap \<Rightarrow> bool" where
  "signal_valid sig \<longleftrightarrow> index sig ''valid'' = VBool True"





text \<open>
  The source matches one of the patterns the enforcer looks for: a banned import under
  one of its three patterns, a banned call, the dynamic-import token, or one of the
  global-mutable-state patterns.
\<close>

definition matches_banned :: "rune list \<Rightarrow> bool" where
  "matches_banned sourceCode \<longleftrightarrow>
     list_ex (\<lambda>imp. list_ex (\<lambda>pattern. MatchString pattern sourceCode) (import_patterns imp))
       BannedImports \<or>
     list_ex (\<lambda>fn. MatchString (function_pattern fn) sourceCode) BannedFunctions \<or>
     Contains sourceCode (runes ''__import__'') \<or>
     list_ex (\<lambda>pattern. MatchString pattern sourceCode) globalMutablePatterns"

section \<open>Properties of the JSON encoding\<close>

text \<open>A string of ASCII characters is well-formed UTF-8, and is written as it is.\<close>

lemma coerce_from_ascii:
  "list_all (\<lambda>c. of_char c < (128::nat)) s \<Longrightarrow> coerce_from 0 s = s"
  by (induction s) (simp_all add: rune_width_def)

lemma coerce_ascii: "list_all (\<lambda>c. of_char c < (128::nat)) s \<Longrightarrow> coerce s = s"
  by (simp add: coerce_def coerce_from_ascii)






text \<open>
  An integer up to \<open>2^53\<close> in magnitude is a \<^verbatim>\<open>float64\<close>; beyond, the nearest \<^verbatim>\<open>float64\<close>
  is not always the integer itself.
\<close>

lemma float64_of_int_exact:
  assumes "\<bar>n\<bar> \<le> 2 ^ 53"
  shows "float64_of_int n = n"
proof (cases "\<bar>n\<bar> < 2 ^ 53")
  case True
  have "bitlen \<bar>n\<bar> \<le> 53"
    using True by (simp add: bitlen_le_iff_power)
  then show ?thesis by (simp add: float64_of_int_def Let_def)
next
  case False
  with assms have a: "\<bar>n\<bar> = 9007199254740992" by simp
  have b: "bitlen 9007199254740992 = 54"
    using bitlen_twopow_add_eq[where w = 53 and b = 0] by simp
  from a have "n = 9007199254740992 \<or> n = - 9007199254740992" by linarith
  then show ?thesis
    by (auto simp: float64_of_int_def b Let_def)
qed




section \<open>The repository's tests, replayed on the model\<close>

text \<open>
  Each lemma evaluates the model on the input of one test of the repository and states
  what the test asserts (and the exact value, where the test only asks for a part of
  it). The tests of the composition operators pass \<^verbatim>\<open>nil\<close> for the context: here the
  unit value.
\<close>

lemmas composition_defs =
  sequentialAnd_Evaluate_def SequentialAnd_def parallelAnd_Evaluate_def ParallelAnd_def
  thresholdPrimitive_Evaluate_def Threshold_def MockPrimitive_def invoke_def assert_bool_def
  index_def fmt_d_def fmt_v_def getPrimitiveName_def decimal.simps digit_def

lemma test_SequentialAndAllPass:
  "index (fst (sequentialAnd_Evaluate
      (SequentialAnd [MockPrimitive ''p1'' ''1.0'' True, MockPrimitive ''p2'' ''1.0'' True])
      () \<lparr>world = (), calls = []\<rparr>)) ''valid'' = VBool True"
  by (simp add: composition_defs)

lemma test_SequentialAndFirstFails:
  "fst (sequentialAnd_Evaluate
      (SequentialAnd [MockPrimitive ''fail'' ''1.0'' False, MockPrimitive ''pass'' ''1.0'' True])
      () \<lparr>world = (), calls = []\<rparr>) =
   [(''valid'', VBool False),
    (''metadata'', VMap [(''reason'', VStr ''Primitive fail failed''),
                         (''failed_index'', VInt 0)]),
    (''evidence'', VList [])]"
  by (simp add: composition_defs)

lemma test_ParallelAndAllPass:
  "index (fst (parallelAnd_Evaluate
      (ParallelAnd [MockPrimitive ''a'' ''1.0'' True, MockPrimitive ''b'' ''1.0'' True,
                    MockPrimitive ''c'' ''1.0'' True])
      () \<lparr>world = (), calls = []\<rparr>)) ''valid'' = VBool True"
  by (simp add: composition_defs)

lemma test_ParallelAndOneFails:
  "fst (parallelAnd_Evaluate
      (ParallelAnd [MockPrimitive ''pass1'' ''1.0'' True, MockPrimitive ''fail'' ''1.0'' False,
                    MockPrimitive ''pass2'' ''1.0'' True])
      () \<lparr>world = (), calls = []\<rparr>) =
   [(''valid'', VBool False),
    (''metadata'', VMap [(''reason'', VStr ''Failed primitives: [fail]'')]),
    (''evidence'', VList [])]"
  by (simp add: composition_defs)

lemma test_ThresholdMet:
  "index (fst (thresholdPrimitive_Evaluate
      (Threshold [MockPrimitive ''a'' ''1.0'' True, MockPrimitive ''b'' ''1.0'' False,
                  MockPrimitive ''c'' ''1.0'' True] 2)
      () \<lparr>world = (), calls = []\<rparr>)) ''valid'' = VBool True"
  by (simp add: composition_defs)

lemma test_ThresholdNotMet:
  "fst (thresholdPrimitive_Evaluate
      (Threshold [MockPrimitive ''a'' ''1.0'' True, MockPrimitive ''b'' ''1.0'' False,
                  MockPrimitive ''c'' ''1.0'' False] 2)
      () \<lparr>world = (), calls = []\<rparr>) =
   [(''valid'', VBool False),
    (''metadata'', VMap [(''reason'',
       VStr ''Only 1 of 3 primitives passed, need at least 2'')]),
    (''evidence'', VList [])]"
  by (simp add: composition_defs)

lemmas engine_defs =
  RegisterPrimitive_def NewGovernanceEngine_def PrimitiveCount_def Clear_def
  MockPrimitive_def Evaluate_engine_def EvaluateWithLogicalTime_def invoke_def
  assert_bool_def index_def failure_reason_def version_of_def empty_context_def
  NewDeterministicContext_def deepCopy_def json_Marshal_def GenerateProof_def
  GenerateProofWithTime_def CommitSignal_def signalData_def constant_digest_def fmt_x_def
  hex_byte_def digit_def quoted_def Let_def

lemma test_GovernanceEngineAllPass:
  "map_option (\<lambda>(d, s'). (Permitted d, length (Signals d), FailureReasons d, Proof d \<noteq> None))
     (Evaluate_engine constant_digest 0
        (snd (RegisterPrimitive ''rate_limit'' (Some (MockPrimitive ''rate_limit'' ''1.0.0'' True))
           (snd (RegisterPrimitive ''auth'' (Some (MockPrimitive ''auth'' ''1.0.0'' True))
              NewGovernanceEngine))))
        empty_context \<lparr>world = (), calls = []\<rparr>) =
   Some (True, 2, [], True)"
  by (simp add: engine_defs)

lemma test_GovernanceEngineProofGeneration:
  "map_option (\<lambda>(d, s'). map_option
       (\<lambda>p. (Decision p, GeneratedAt p, PrimitiveVersions p ''test'', EvaluationOrder p,
             SignalCommitments p)) (Proof d))
     (EvaluateWithLogicalTime constant_digest
        (snd (RegisterPrimitive ''test'' (Some (MockPrimitive ''test'' ''2.0.0'' True))
           NewGovernanceEngine))
        (NewDeterministicContext (Some []) 100) 12345 \<lparr>world = (), calls = []\<rparr>) =
   Some (Some (True, 12345, Some ''2.0.0'', [''test''], [''0aff'']))"
  by (simp add: engine_defs)

lemma test_GovernanceEngineDuplicateRegistration:
  "fst (RegisterPrimitive ''test'' (Some (MockPrimitive ''test2'' ''1.0.0'' True))
     (snd (RegisterPrimitive ''test'' (Some (MockPrimitive ''test'' ''1.0.0'' True))
        (NewGovernanceEngine :: unit GovernanceEngine)))) =
   Some (errorString (''primitive with ID '' @ quoted ''test'' @ '' already registered'')) \<and>
   PrimitiveCount (snd (RegisterPrimitive ''test'' (Some (MockPrimitive ''test2'' ''1.0.0'' True))
     (snd (RegisterPrimitive ''test'' (Some (MockPrimitive ''test'' ''1.0.0'' True))
        (NewGovernanceEngine :: unit GovernanceEngine))))) = 1"
  by (simp add: engine_defs)

lemma test_GovernanceEngineNilPrimitive:
  "fst (RegisterPrimitive ''nil'' None (NewGovernanceEngine :: unit GovernanceEngine)) =
   Some (errorString ''primitive cannot be nil'')"
  by (simp add: engine_defs)

lemma test_GovernanceEngineEmptyID:
  "fst (RegisterPrimitive [] (Some (MockPrimitive ''test'' ''1.0.0'' True))
     (NewGovernanceEngine :: unit GovernanceEngine)) =
   Some (errorString ''primitive ID cannot be empty'')"
  by (simp add: engine_defs)

lemma test_GovernanceEngineClear:
  "PrimitiveCount (snd (RegisterPrimitive ''test'' (Some (MockPrimitive ''test'' ''1.0.0'' True))
     (NewGovernanceEngine :: unit GovernanceEngine))) = 1 \<and>
   PrimitiveCount (Clear (snd (RegisterPrimitive ''test''
     (Some (MockPrimitive ''test'' ''1.0.0'' True))
     (NewGovernanceEngine :: unit GovernanceEngine)))) = 0"
  by (simp add: engine_defs)

lemma test_ComplianceCheckerValidPrimitive:
  "fst (CheckPrimitive (Some (MockPrimitive ''valid'' ''1.0.0'' True))
     \<lparr>world = (), calls = []\<rparr>) =
   (Some \<lparr>Compliant = True, Violations = [],
          Checked = [''version'', ''evaluate_contract'']\<rparr>, None)"
  by (simp add: CheckPrimitive_def MockPrimitive_def invoke_def Let_def)

lemma test_BadEvaluatePrimitive:
  "fst (CheckPrimitive (Some BadEvaluatePrimitive) \<lparr>world = (), calls = []\<rparr>) =
   (Some \<lparr>Compliant = False,
          Violations = [\<lparr>Primitive = ''unknown'', Requirement = ''evaluate_contract'',
                         Details = ''Evaluate() must return map with '' @ quoted ''valid'' @
                                   '' key''\<rparr>],
          Checked = [''version'', ''evaluate_contract'']\<rparr>, None)"
  by (simp add: CheckPrimitive_def BadEvaluatePrimitive_def invoke_def Let_def)

lemma test_DeterministicContextImpl:
  "Time (NewDeterministicContext
     (Some [(''key1'', VStr ''value1''), (''key2'', VMap [(''nested'', VStr ''data'')])]) 42) = 42 \<and>
   Get (NewDeterministicContext
     (Some [(''key1'', VStr ''value1''), (''key2'', VMap [(''nested'', VStr ''data'')])]) 42)
     ''key1'' VNil = VStr ''value1'' \<and>
   Get (NewDeterministicContext
     (Some [(''key1'', VStr ''value1''), (''key2'', VMap [(''nested'', VStr ''data'')])]) 42)
     ''nonexistent'' (VStr ''default'') = VStr ''default'' \<and>
   Has (NewDeterministicContext
     (Some [(''key1'', VStr ''value1''), (''key2'', VMap [(''nested'', VStr ''data'')])]) 42)
     ''key1'' \<and>
   \<not> Has (NewDeterministicContext
     (Some [(''key1'', VStr ''value1''), (''key2'', VMap [(''nested'', VStr ''data'')])]) 42)
     ''nonexistent''"
  by (simp add: Time_def Get_def Has_def NewDeterministicContext_def deepCopy_def
      json_Marshal_def json_Unmarshal_def assign_all_def coerce_ascii)

lemma test_DeterministicContextImmutability:
  "map_option Error (SetItem (NewDeterministicContext (Some [(''x'', VInt 1)]) 0) ''y'' (VInt 2)) =
     Some ''context is immutable'' \<and>
   map_option Error (DeleteItem (NewDeterministicContext (Some [(''x'', VInt 1)]) 0) ''x'') =
     Some ''context is immutable''"
  by (simp add: SetItem_def DeleteItem_def)

lemma test_DeterministicContextGetItem:
  "GetItem (NewDeterministicContext (Some [(''x'', VInt 1)]) 0) ''x'' = (VFloat 1, None)"
  using float64_of_int_exact[of 1]
  by (simp add: GetItem_def NewDeterministicContext_def deepCopy_def json_Marshal_def
      json_Unmarshal_def assign_all_def coerce_ascii)

lemmas enforcer_defs =
  ValidateDeterministic_def TrimSpace_def IsSpace_def MatchString_def BannedImports_def
  BannedFunctions_def import_patterns_def function_pattern_def globalMutablePatterns_def
  import_violations_def function_violations_def dynamic_import_violations_def
  global_state_violations_def lit_def runes_def quoted_def is_s_def is_w_def

lemma test_ValidDeterministicGoCode:
  "ValidateDeterministic
     ([10] @ runes ''package main'' @ [10, 10] @
      runes ''func evaluate(ctx map[string]interface{}) map[string]interface{} {'' @
      [10, 9] @ runes ''return map[string]interface{}{'' @ [34] @ runes ''valid'' @ [34] @
      runes '': true}'' @ [10] @ runes ''}'' @ [10]) = None"
  by (simp add: enforcer_defs)

lemma test_BannedImportTimeGo:
  "map_option Error (ValidateDeterministic
     ([10] @ runes ''package main'' @ [10, 10] @ runes ''import '' @ [34] @ runes ''time'' @
      [34] @ [10, 10] @ runes ''func evaluate() {'' @ [10, 9] @ runes ''_ = time.Now()'' @
      [10] @ runes ''}'' @ [10])) =
   Some (''Banned import '' @ quoted ''time'' @ '' found; Banned function '' @
         quoted ''time.Now'' @ '' found'')"
  by (simp add: enforcer_defs)

lemma test_BannedFunctionTimeNow:
  "map_option Error (ValidateDeterministic
     ([10] @ runes ''package main'' @ [10, 10] @ runes ''func doSomething() {'' @ [10, 9] @
      runes ''t := time.Now()'' @ [10, 9] @ runes ''_ = t'' @ [10] @ runes ''}'' @ [10])) =
   Some (''Banned function '' @ quoted ''time.Now'' @ '' found'')"
  by (simp add: enforcer_defs)

lemma test_BannedFunctionRand:
  "map_option Error (ValidateDeterministic
     ([10] @ runes ''package main'' @ [10, 10] @ runes ''func doSomething() {'' @ [10, 9] @
      runes ''x := rand.Intn(100)'' @ [10, 9] @ runes ''_ = x'' @ [10] @ runes ''}'' @ [10])) =
   Some (''Banned function '' @ quoted ''rand.Intn'' @ '' found'')"
  by (simp add: enforcer_defs)

lemma test_PythonCompatBannedImport:
  "map_option Error (ValidateDeterministic
     ([10] @ runes ''from time import time'' @ [10, 10] @ runes ''def evaluate():'' @ [10] @
      runes ''    return time()'' @ [10])) =
   Some (''Banned import '' @ quoted ''time'' @ '' found; Banned import '' @
         quoted ''time'' @ '' found'')"
  by (simp add: enforcer_defs)

lemma test_PythonDirectImport:
  "map_option Error (ValidateDeterministic
     ([10] @ runes ''def evaluate():'' @ [10] @ runes ''    t = __import__('' @ [39] @
      runes ''time'' @ [39] @ runes '')'' @ [10] @ runes ''    return t.time()'' @ [10])) =
   Some ''Direct __import__ call detected - use import statements instead''"
  by (simp add: enforcer_defs)

lemma test_EmptySourceCode:
  "map_option Error (ValidateDeterministic []) = Some ''empty source code''"
  by (simp add: enforcer_defs)

lemma test_EmptySourceCodeWhitespace:
  "map_option Error (ValidateDeterministic [32, 32, 32, 10, 9, 32, 32]) =
   Some ''empty source code''"
  by (simp add: enforcer_defs)

section \<open>Properties of the composition operators\<close>

lemma assert_bool_valid:
  "assert_bool (index r ''valid'') =
     (is_valid r, is_valid r \<or> (\<exists>b. map_of r ''valid'' = Some (VBool b)))"
  by (auto simp: assert_bool_def index_def is_valid_def split: option.splits val.splits)

lemma length_run_all: "length (fst (run_all ps c w)) = length ps"
proof (induction ps arbitrary: w)
  case Nil
  show ?case by simp
next
  case (Cons p ps)
  obtain r w1 where e: "Evaluate p c w = (r, w1)" by (cases "Evaluate p c w")
  obtain rs w2 where r: "run_all ps c w1 = (rs, w2)" by (cases "run_all ps c w1")
  from Cons.IH[of w1] show ?case by (simp add: e r)
qed

text \<open>The collecting loop calls every primitive once, in order, whatever the results.\<close>

lemma collect_results_run_all:
  "collect_results i ps c s =
     (map is_valid (fst (run_all ps c (world s))),
      s\<lparr>world := snd (run_all ps c (world s)), calls := calls s @ [i..<i + length ps]\<rparr>)"
proof (induction ps arbitrary: i s)
  case Nil
  show ?case by simp
next
  case (Cons p ps)
  show ?case
    by (auto simp add: invoke_def Cons.IH assert_bool_valid upt_conv_Cons
        split: prod.splits simp del: upt_Suc)
qed

lemma allPassed_list_all: "allPassed (map f rs) = list_all f rs"
  by (induction rs) auto

lemma passedCount_filter: "passedCount (map f rs) = int (length (filter f rs))"
  by (induction rs) auto

lemma failedPrimitives_names:
  "length rs = length ps \<Longrightarrow>
   failedPrimitives i ps (map is_valid rs) =
     map (\<lambda>((j, p), r). getPrimitiveName p j)
       (filter (\<lambda>(ip, r). \<not> is_valid r) (zip (enumerate i ps) rs))"
proof (induction ps arbitrary: i rs)
  case Nil
  then show ?case by simp
next
  case (Cons p ps)
  then obtain r rs' where rs: "rs = r # rs'" by (cases rs) auto
  with Cons show ?case by simp
qed

text \<open>
  C4. Evaluating \<^verbatim>\<open>Threshold(primitives, k)\<close> calls \<^verbatim>\<open>Evaluate\<close> of every primitive
  exactly once, in the order of the list (the calls logged are the positions
  \<open>0, ..., N - 1\<close>, and the world is the one these calls leave), and the result is valid
  exactly when at least \<open>k\<close> of the results obtained are valid. This holds for every
  integer \<open>k\<close>, so in particular for \<open>0 \<le> k \<le> N\<close>.
\<close>

theorem Threshold_counts_every_result:
  "(case run_all ps c (world s) of
      (rs, w') \<Rightarrow>
        (case thresholdPrimitive_Evaluate (Threshold ps k) c s of
           (result, s') \<Rightarrow>
             calls s' = calls s @ [0..<length ps] \<and> world s' = w' \<and>
             (is_valid result \<longleftrightarrow> k \<le> int (length (filter is_valid rs)))))"
proof -
  obtain rs w' where run: "run_all ps c (world s) = (rs, w')"
    by (cases "run_all ps c (world s)")
  show ?thesis
    by (simp add: run thresholdPrimitive_Evaluate_def Threshold_def collect_results_run_all
        passedCount_filter is_valid_def)
qed

theorem Threshold_counts_every_result_witness:
  "thresholdPrimitive_Evaluate
     (Threshold [MockPrimitive ''a'' ''1.0'' True, MockPrimitive ''b'' ''1.0'' False,
                 MockPrimitive ''c'' ''1.0'' True] 2) () \<lparr>world = (), calls = []\<rparr> =
     ([(''valid'', VBool True),
       (''metadata'', VMap [(''message'', VStr ''2 of 3 primitives passed'')]),
       (''evidence'', VList [])], \<lparr>world = (), calls = [0, 1, 2]\<rparr>) \<and>
   \<not> is_valid (fst (thresholdPrimitive_Evaluate
     (Threshold [MockPrimitive ''a'' ''1.0'' True, MockPrimitive ''b'' ''1.0'' False,
                 BadEvaluatePrimitive] 2) () \<lparr>world = (), calls = []\<rparr>))"
  using Threshold_counts_every_result
      [where ps = "[MockPrimitive ''a'' ''1.0'' True, MockPrimitive ''b'' ''1.0'' False,
            BadEvaluatePrimitive]" and c = "()" and s = "\<lparr>world = (), calls = []\<rparr>"
          and k = 2]
  by (simp add: thresholdPrimitive_Evaluate_def Threshold_def MockPrimitive_def
      BadEvaluatePrimitive_def invoke_def assert_bool_def index_def is_valid_def fmt_d_def
      decimal.simps digit_def split: prod.splits)

text \<open>
  C5. Evaluating \<^verbatim>\<open>ParallelAnd(primitives)\<close> calls \<^verbatim>\<open>Evaluate\<close> of every primitive
  exactly once, in the order of the list, whatever the earlier results; the result is
  valid exactly when every result obtained is valid; and when one is not, the reason in
  the metadata lists the name of every failed primitive in input order (its own name, or
  \<^verbatim>\<open>primitive_<index>\<close> when it has none), as \<^verbatim>\<open>%v\<close> prints the list.
\<close>

theorem ParallelAnd_evaluates_all:
  "(case run_all ps c (world s) of
      (rs, w') \<Rightarrow>
        (case parallelAnd_Evaluate (ParallelAnd ps) c s of
           (result, s') \<Rightarrow>
             calls s' = calls s @ [0..<length ps] \<and> world s' = w' \<and>
             (is_valid result \<longleftrightarrow> list_all is_valid rs) \<and>
             index result ''metadata'' =
               (if list_all is_valid rs
                then VMap [(''message'', VStr ''All primitives passed in parallel'')]
                else VMap [(''reason'',
                       VStr (''Failed primitives: '' @ fmt_v (failed_names ps rs)))])))"
proof -
  obtain rs w' where run: "run_all ps c (world s) = (rs, w')"
    by (cases "run_all ps c (world s)")
  have len: "length rs = length ps"
    using length_run_all[of ps c "world s"] by (simp add: run)
  show ?thesis
    by (simp add: run parallelAnd_Evaluate_def ParallelAnd_def collect_results_run_all
        allPassed_list_all failedPrimitives_names[OF len] failed_names_def is_valid_def
        index_def)
qed

theorem ParallelAnd_evaluates_all_witness:
  "parallelAnd_Evaluate
     (ParallelAnd [MockPrimitive ''fail'' ''1.0'' False, MockPrimitive ''pass'' ''1.0'' True,
                   BadEvaluatePrimitive]) () \<lparr>world = (), calls = []\<rparr> =
     ([(''valid'', VBool False),
       (''metadata'', VMap [(''reason'', VStr ''Failed primitives: [fail primitive_2]'')]),
       (''evidence'', VList [])], \<lparr>world = (), calls = [0, 1, 2]\<rparr>)"
  using ParallelAnd_evaluates_all
      [where ps = "[MockPrimitive ''fail'' ''1.0'' False, MockPrimitive ''pass'' ''1.0'' True,
            BadEvaluatePrimitive]" and c = "()" and s = "\<lparr>world = (), calls = []\<rparr>"]
  by (simp add: parallelAnd_Evaluate_def ParallelAnd_def MockPrimitive_def
      BadEvaluatePrimitive_def invoke_def assert_bool_def index_def is_valid_def fmt_d_def
      fmt_v_def failed_names_def getPrimitiveName_def decimal.simps digit_def
      split: prod.splits)

lemma sequentialAnd_loop_fails:
  "i < length ps \<Longrightarrow> list_all is_valid (take i (fst (run_all ps c (world s)))) \<Longrightarrow>
   \<not> is_valid (fst (run_all ps c (world s)) ! i) \<Longrightarrow>
   sequentialAnd_loop n ps c s =
     ([(''valid'', VBool False),
       (''metadata'', VMap
          [(''reason'', VStr (''Primitive '' @ getPrimitiveName (ps ! i) (n + i) @ '' failed'')),
           (''failed_index'', VInt (int (n + i)))]),
       (''evidence'', VList [])],
      s\<lparr>world := snd (run_all (take (Suc i) ps) c (world s)),
        calls := calls s @ [n..<n + Suc i]\<rparr>)"
proof (induction ps arbitrary: i n s)
  case Nil
  then show ?case by simp
next
  case (Cons p ps)
  obtain r w1 where e: "Evaluate p c (world s) = (r, w1)" by (cases "Evaluate p c (world s)")
  obtain rs w2 where ra: "run_all ps c w1 = (rs, w2)" by (cases "run_all ps c w1")
  show ?case
  proof (cases i)
    case 0
    with Cons.prems show ?thesis
      by (simp add: e ra invoke_def assert_bool_valid)
  next
    case (Suc j)
    let ?s1 = "s\<lparr>world := w1, calls := calls s @ [n]\<rparr>"
    from Cons.prems Suc have j: "j < length ps" and v: "is_valid r"
      and pre: "list_all is_valid (take j (fst (run_all ps c (world ?s1))))"
      and bad: "\<not> is_valid (fst (run_all ps c (world ?s1)) ! j)"
      by (simp_all add: e ra)
    from Cons.IH[OF j pre bad, of "Suc n"] v Suc show ?thesis
      by (simp add: e ra invoke_def assert_bool_valid upt_conv_Cons split: prod.splits
          del: upt_Suc)
  qed
qed

lemma sequentialAnd_loop_passes:
  "list_all is_valid (fst (run_all ps c (world s))) \<Longrightarrow>
   sequentialAnd_loop n ps c s =
     ([(''valid'', VBool True),
       (''metadata'', VMap [(''message'', VStr ''All primitives passed sequentially'')]),
       (''evidence'', VList [])],
      s\<lparr>world := snd (run_all ps c (world s)), calls := calls s @ [n..<n + length ps]\<rparr>)"
proof (induction ps arbitrary: n s)
  case Nil
  then show ?case by simp
next
  case (Cons p ps)
  obtain r w1 where e: "Evaluate p c (world s) = (r, w1)" by (cases "Evaluate p c (world s)")
  obtain rs w2 where ra: "run_all ps c w1 = (rs, w2)" by (cases "run_all ps c w1")
  let ?s1 = "s\<lparr>world := w1, calls := calls s @ [n]\<rparr>"
  from Cons.prems have v: "is_valid r"
    and pre: "list_all is_valid (fst (run_all ps c (world ?s1)))"
    by (simp_all add: e ra)
  from Cons.IH[OF pre, of "Suc n"] v show ?case
    by (simp add: e ra invoke_def assert_bool_valid upt_conv_Cons split: prod.splits
        del: upt_Suc)
qed

text \<open>
  C6. When the first result that is not valid is the one at position \<open>i\<close> (the results
  before it are valid), evaluating \<^verbatim>\<open>SequentialAnd(primitives)\<close> calls the primitives at
  positions \<open>0, ..., i\<close> in order and no other, and returns \<^verbatim>\<open>valid = false\<close> with
  \<^verbatim>\<open>failed_index = i\<close> and the reason naming that primitive (its own name, or
  \<^verbatim>\<open>primitive_<index>\<close>). When every result is valid, every primitive is called and the
  result is \<^verbatim>\<open>valid = true\<close> with the generic success message.
\<close>

theorem SequentialAnd_stops_at_first_invalid:
  "(let rs = fst (run_all ps c (world s)) in
    (i < length ps \<and> list_all is_valid (take i rs) \<and> \<not> is_valid (rs ! i) \<longrightarrow>
       sequentialAnd_Evaluate (SequentialAnd ps) c s =
         ([(''valid'', VBool False),
           (''metadata'', VMap
              [(''reason'', VStr (''Primitive '' @ getPrimitiveName (ps ! i) i @ '' failed'')),
               (''failed_index'', VInt (int i))]),
           (''evidence'', VList [])],
          s\<lparr>world := snd (run_all (take (Suc i) ps) c (world s)),
            calls := calls s @ [0..<Suc i]\<rparr>)) \<and>
    (list_all is_valid rs \<longrightarrow>
       sequentialAnd_Evaluate (SequentialAnd ps) c s =
         ([(''valid'', VBool True),
           (''metadata'', VMap [(''message'', VStr ''All primitives passed sequentially'')]),
           (''evidence'', VList [])],
          s\<lparr>world := snd (run_all ps c (world s)), calls := calls s @ [0..<length ps]\<rparr>)))"
  using sequentialAnd_loop_fails[of i ps c s 0] sequentialAnd_loop_passes[of ps c s 0]
  by (simp add: sequentialAnd_Evaluate_def SequentialAnd_def Let_def)

theorem SequentialAnd_stops_at_first_invalid_witness:
  "sequentialAnd_Evaluate
     (SequentialAnd [MockPrimitive ''a'' ''1.0'' True, BadEvaluatePrimitive,
                     MockPrimitive ''b'' ''1.0'' False]) () \<lparr>world = (), calls = []\<rparr> =
     ([(''valid'', VBool False),
       (''metadata'', VMap [(''reason'', VStr ''Primitive primitive_1 failed''),
                            (''failed_index'', VInt 1)]),
       (''evidence'', VList [])], \<lparr>world = (), calls = [0, 1]\<rparr>) \<and>
   sequentialAnd_Evaluate
     (SequentialAnd [MockPrimitive ''p1'' ''1.0'' True, MockPrimitive ''p2'' ''1.0'' True])
     () \<lparr>world = (), calls = []\<rparr> =
     ([(''valid'', VBool True),
       (''metadata'', VMap [(''message'', VStr ''All primitives passed sequentially'')]),
       (''evidence'', VList [])], \<lparr>world = (), calls = [0, 1]\<rparr>)"
  using SequentialAnd_stops_at_first_invalid
      [where i = 1 and ps = "[MockPrimitive ''a'' ''1.0'' True, BadEvaluatePrimitive,
              MockPrimitive ''b'' ''1.0'' False]" and c = "()"
          and s = "\<lparr>world = (), calls = []\<rparr>"]
    SequentialAnd_stops_at_first_invalid
      [where i = 0 and ps = "[MockPrimitive ''p1'' ''1.0'' True, MockPrimitive ''p2'' ''1.0'' True]"
          and c = "()" and s = "\<lparr>world = (), calls = []\<rparr>"]
  by (simp add: MockPrimitive_def BadEvaluatePrimitive_def is_valid_def getPrimitiveName_def
      fmt_d_def decimal.simps digit_def Let_def)

section \<open>Properties of the governance engine\<close>

lemma index_Nil: "index [] k = VNil"
  by (simp add: index_def)

lemma index_Cons: "index ((k', v) # m) k = (if k = k' then v else index m k)"
  by (simp add: index_def)

lemma has_prefix_iff: "has_prefix s p \<longleftrightarrow> (\<exists>b. s = p @ b)"
  by (induction s p rule: has_prefix.induct) auto

lemma Contains_iff: "Contains s sub \<longleftrightarrow> (\<exists>a b. s = a @ sub @ b)"
proof (induction s)
  case Nil
  show ?case by (auto simp: has_prefix_iff)
next
  case (Cons c cs)
  show ?case
  proof
    assume "Contains (c # cs) sub"
    then consider "has_prefix (c # cs) sub" | "Contains cs sub"
      by (auto split: if_splits)
    then show "\<exists>a b. c # cs = a @ sub @ b"
    proof cases
      case 1
      then obtain b where "c # cs = sub @ b" by (auto simp: has_prefix_iff)
      then have "c # cs = [] @ sub @ b" by simp
      then show ?thesis by blast
    next
      case 2
      with Cons.IH obtain a b where "cs = a @ sub @ b" by blast
      then have "c # cs = (c # a) @ sub @ b" by simp
      then show ?thesis by blast
    qed
  next
    assume "\<exists>a b. c # cs = a @ sub @ b"
    then obtain a b where ab: "c # cs = a @ sub @ b" by blast
    show "Contains (c # cs) sub"
    proof (cases a)
      case Nil
      with ab have "has_prefix (c # cs) sub" by (auto simp: has_prefix_iff)
      then show ?thesis by simp
    next
      case (Cons x a')
      with ab have "cs = a' @ sub @ b" by simp
      with Cons.IH have "Contains cs sub" by blast
      then show ?thesis by simp
    qed
  qed
qed

lemma reachable_lengths: "reachable ge \<Longrightarrow> length (primitiveIDs ge) = length (primitives ge)"
  by (induction rule: reachable.induct)
    (auto simp: NewGovernanceEngine_def RegisterPrimitive_def Clear_def split: option.splits)

lemma evaluatedIDs_append:
  "evaluatedIDs sigs = Some ids \<Longrightarrow>
   evaluatedIDs (sigs @ [(''primitive_id'', VStr i) # rest]) = Some (ids @ [i])"
  by (induction sigs arbitrary: ids) (auto simp: index_def split: option.splits val.splits)

text \<open>What the loop keeps true, whatever it meets.\<close>

lemma evaluate_loop_invariant:
  assumes "i + length rest \<le> length (primitiveIDs ge)"
    and "evaluatedIDs (Signals d) = Some ids_in"
    and "Permitted d" and "list_all signal_valid (Signals d)" and "FailureReasons d = []"
  shows "\<exists>d' s' ids. evaluate_loop ge ctx i rest d s = Some (d', s') \<and>
           evaluatedIDs (Signals d') = Some ids \<and>
           length (Signals d') \<le> length (Signals d) + length rest \<and>
           (length (Signals d') < length (Signals d) + length rest \<longrightarrow> \<not> Permitted d') \<and>
           (Permitted d' \<longleftrightarrow> list_all signal_valid (Signals d')) \<and>
           (Permitted d' \<longleftrightarrow> FailureReasons d' = []) \<and>
           (\<not> Permitted d' \<longrightarrow> Signals d' \<noteq> [] \<and> \<not> signal_valid (last (Signals d')) \<and>
              list_all signal_valid (butlast (Signals d')) \<and> length (FailureReasons d') = 1)"
  using assms
proof (induction rest arbitrary: i d s ids_in)
  case Nil
  then show ?case by simp
next
  case (Cons p rest)
  obtain r w1 where e: "Evaluate p ctx (world s) = (r, w1)" by (cases "Evaluate p ctx (world s)")
  let ?id = "primitiveIDs ge ! i"
  let ?sig = "[(''primitive_id'', VStr ?id),
               (''version'', VStr (version_of (versions ge) ?id)),
               (''valid'', index r ''valid''),
               (''metadata'', index r ''metadata''),
               (''evidence'', index r ''evidence'')]"
  let ?d1 = "d\<lparr>Signals := Signals d @ [?sig]\<rparr>"
  let ?s1 = "s\<lparr>world := w1, calls := calls s @ [i]\<rparr>"
  from Cons.prems have i: "i < length (primitiveIDs ge)" by simp
  have ids1: "evaluatedIDs (Signals ?d1) = Some (ids_in @ [?id])"
    using evaluatedIDs_append[OF Cons.prems(2)] by simp
  have sv: "signal_valid ?sig \<longleftrightarrow> is_valid r"
    by (auto simp: signal_valid_def index_def is_valid_def split: option.splits)
  show ?case
  proof (cases "is_valid r")
    case True
    have step: "evaluate_loop ge ctx i (p # rest) d s = evaluate_loop ge ctx (Suc i) rest ?d1 ?s1"
      using i True by (simp add: e invoke_def assert_bool_valid Let_def)
    have "\<exists>d' s' ids. evaluate_loop ge ctx (Suc i) rest ?d1 ?s1 = Some (d', s') \<and>
           evaluatedIDs (Signals d') = Some ids \<and>
           length (Signals d') \<le> length (Signals ?d1) + length rest \<and>
           (length (Signals d') < length (Signals ?d1) + length rest \<longrightarrow> \<not> Permitted d') \<and>
           (Permitted d' \<longleftrightarrow> list_all signal_valid (Signals d')) \<and>
           (Permitted d' \<longleftrightarrow> FailureReasons d' = []) \<and>
           (\<not> Permitted d' \<longrightarrow> Signals d' \<noteq> [] \<and> \<not> signal_valid (last (Signals d')) \<and>
              list_all signal_valid (butlast (Signals d')) \<and> length (FailureReasons d') = 1)"
      using Cons.prems True sv by (intro Cons.IH[OF _ ids1]) simp_all
    then show ?thesis unfolding step by simp
  next
    case False
    have step: "evaluate_loop ge ctx i (p # rest) d s =
        Some (?d1\<lparr>Permitted := False,
                 FailureReasons := FailureReasons ?d1 @ [failure_reason ?id r]\<rparr>, ?s1)"
      using i False by (simp add: e invoke_def assert_bool_valid Let_def)
    show ?thesis unfolding step using Cons.prems False sv ids1 by simp
  qed
qed


lemma Evaluate_engine_total:
  assumes "length (primitiveIDs ge) = length (primitives ge)"
  shows "\<exists>d s'. Evaluate_engine sha256 now ge ctx s = Some (d, s') \<and>
           length (Signals d) \<le> length (primitives ge) \<and>
           (length (Signals d) < length (primitives ge) \<longrightarrow> \<not> Permitted d) \<and>
           (Permitted d \<longleftrightarrow> list_all signal_valid (Signals d)) \<and>
           (\<not> Permitted d \<longrightarrow> Signals d \<noteq> [] \<and> \<not> signal_valid (last (Signals d)))"
proof -
  let ?d0 = "\<lparr>Permitted = True, Signals = [], FailureReasons = [], Proof = None\<rparr>"
  have "\<exists>d' s' ids. evaluate_loop ge ctx 0 (primitives ge) ?d0 s = Some (d', s') \<and>
           evaluatedIDs (Signals d') = Some ids \<and>
           length (Signals d') \<le> length (Signals ?d0) + length (primitives ge) \<and>
           (length (Signals d') < length (Signals ?d0) + length (primitives ge) \<longrightarrow>
              \<not> Permitted d') \<and>
           (Permitted d' \<longleftrightarrow> list_all signal_valid (Signals d')) \<and>
           (Permitted d' \<longleftrightarrow> FailureReasons d' = []) \<and>
           (\<not> Permitted d' \<longrightarrow> Signals d' \<noteq> [] \<and> \<not> signal_valid (last (Signals d')) \<and>
              list_all signal_valid (butlast (Signals d')) \<and> length (FailureReasons d') = 1)"
    using assms by (intro evaluate_loop_invariant[where ids_in = "[]"]) simp_all
  then obtain d' s' ids where
    loop: "evaluate_loop ge ctx 0 (primitives ge) ?d0 s = Some (d', s')"
    and ids: "evaluatedIDs (Signals d') = Some ids"
    and props: "length (Signals d') \<le> length (primitives ge)"
      "length (Signals d') < length (primitives ge) \<longrightarrow> \<not> Permitted d'"
      "Permitted d' \<longleftrightarrow> list_all signal_valid (Signals d')"
      "\<not> Permitted d' \<longrightarrow> Signals d' \<noteq> [] \<and> \<not> signal_valid (last (Signals d'))"
    by auto
  show ?thesis using props by (simp add: Evaluate_engine_def loop ids)
qed

text \<open>
  C2, as amended. For every engine state and every context, \<^verbatim>\<open>Evaluate\<close> returns a
  decision whose signals are at most as many as the registered primitives; when they
  are strictly fewer, \<^verbatim>\<open>permitted\<close> is false. The converse does not hold: the
  signal of the primitive that fails is recorded before the loop stops, so
  \<^verbatim>\<open>permitted\<close> is false exactly when the last signal recorded is not valid, which
  includes a failure of the last registered primitive, with as many signals as
  primitives.
\<close>

theorem Evaluate_signals_bounded:
  assumes "reachable ge"
  shows "\<exists>d s'. Evaluate_engine sha256 now ge ctx s = Some (d, s') \<and>
           length (Signals d) \<le> PrimitiveCount ge \<and>
           (length (Signals d) < PrimitiveCount ge \<longrightarrow> \<not> Permitted d) \<and>
           (\<not> Permitted d \<longleftrightarrow> Signals d \<noteq> [] \<and> \<not> signal_valid (last (Signals d)))"
proof -
  from Evaluate_engine_total[OF reachable_lengths[OF assms], of sha256 now ctx s]
  obtain d s' where ev: "Evaluate_engine sha256 now ge ctx s = Some (d, s')"
    and le: "length (Signals d) \<le> length (primitives ge)"
    and lt: "length (Signals d) < length (primitives ge) \<longrightarrow> \<not> Permitted d"
    and all: "Permitted d \<longleftrightarrow> list_all signal_valid (Signals d)"
    and last: "\<not> Permitted d \<longrightarrow> Signals d \<noteq> [] \<and> \<not> signal_valid (last (Signals d))"
    by blast
  have "Permitted d \<Longrightarrow> Signals d \<noteq> [] \<Longrightarrow> signal_valid (last (Signals d))"
    using all by (simp add: list_all_iff)
  with le lt last show ?thesis
    unfolding PrimitiveCount_def ev by blast
qed

lemma reachable_fail_closed_engine: "reachable (fail_closed_engine :: 'w GovernanceEngine)"
  unfolding fail_closed_engine_def by (intro reachable.intros)

theorem Evaluate_signals_bounded_witness:
  "reachable (fail_closed_engine :: unit GovernanceEngine) \<and>
   PrimitiveCount (fail_closed_engine :: unit GovernanceEngine) = 3 \<and>
   map_option (\<lambda>(d, s'). (length (Signals d), Permitted d))
     (Evaluate_engine constant_digest 0 fail_closed_engine empty_context
        \<lparr>world = (), calls = []\<rparr>) = Some (2, False)"
  using Evaluate_signals_bounded[OF reachable_fail_closed_engine,
      of constant_digest 0 empty_context "\<lparr>world = (), calls = []\<rparr>"]
    reachable_fail_closed_engine[where 'w = unit]
  by (simp add: fail_closed_engine_def RegisterPrimitive_def NewGovernanceEngine_def
      PrimitiveCount_def MockPrimitive_def Evaluate_engine_def invoke_def assert_bool_def
      index_def Let_def)

text \<open>
  C2 as stated fails: with one registered primitive that denies, the decision has one
  signal, as many as there are primitives and not fewer, and \<^verbatim>\<open>permitted\<close> is
  false.
\<close>

theorem signals_fewer_iff_denied_counterexample:
  "PrimitiveCount (denied_engine :: unit GovernanceEngine) = 1 \<and>
   Evaluate_engine constant_digest 0 denied_engine empty_context \<lparr>world = (), calls = []\<rparr> =
     Some (\<lparr>Permitted = False,
             Signals = [[(''primitive_id'', VStr ''denied''), (''version'', VStr ''1.0.0''),
                         (''valid'', VBool False),
                         (''metadata'', VMap [(''primitive'', VStr ''denied'')]),
                         (''evidence'', VList [])]],
             FailureReasons = [''Primitive '' @ quoted ''denied'' @ '' failed''],
             Proof = Some \<lparr>PrimitiveVersions = [''denied'' \<mapsto> ''1.0.0''],
                            EvaluationOrder = [''denied''], Decision = False,
                            SignalCommitments = [''0aff''], GeneratedAt = 0\<rparr>\<rparr>,
           \<lparr>world = (), calls = [0]\<rparr>)"
  by (simp add: denied_engine_def RegisterPrimitive_def NewGovernanceEngine_def
      PrimitiveCount_def MockPrimitive_def Evaluate_engine_def invoke_def assert_bool_def
      index_def failure_reason_def version_of_def GenerateProof_def GenerateProofWithTime_def
      CommitSignal_def signalData_def json_Marshal_def constant_digest_def fmt_x_def
      hex_byte_def digit_def Let_def)

text \<open>
  C9. With no primitive registered, \<^verbatim>\<open>Evaluate\<close> permits, in every context: the
  decision has \<^verbatim>\<open>permitted = true\<close>, no signal and no failure reason, and its proof
  has an empty evaluation order and no signal commitment.
\<close>

theorem Evaluate_empty_registry_permits:
  "PrimitiveCount ge = 0 \<Longrightarrow>
   Evaluate_engine sha256 now ge ctx s =
     Some (\<lparr>Permitted = True, Signals = [], FailureReasons = [],
             Proof = Some \<lparr>PrimitiveVersions = versions ge, EvaluationOrder = [],
                            Decision = True, SignalCommitments = [], GeneratedAt = now\<rparr>\<rparr>, s)"
  by (simp add: PrimitiveCount_def Evaluate_engine_def GenerateProof_def
      GenerateProofWithTime_def)

theorem Evaluate_empty_registry_permits_witness:
  "PrimitiveCount (NewGovernanceEngine :: unit GovernanceEngine) = 0 \<and>
   Evaluate_engine constant_digest 7 (NewGovernanceEngine :: unit GovernanceEngine)
       \<lparr>dc_data = [(''user'', VStr ''anyone'')], dc_time = 0\<rparr> \<lparr>world = (), calls = []\<rparr> =
     Some (\<lparr>Permitted = True, Signals = [], FailureReasons = [],
             Proof = Some \<lparr>PrimitiveVersions = Map.empty, EvaluationOrder = [],
                            Decision = True, SignalCommitments = [], GeneratedAt = 7\<rparr>\<rparr>,
           \<lparr>world = (), calls = []\<rparr>)"
  using Evaluate_empty_registry_permits[of "NewGovernanceEngine :: unit GovernanceEngine"
      constant_digest 7 "\<lparr>dc_data = [(''user'', VStr ''anyone'')], dc_time = 0\<rparr>"
      "\<lparr>world = (), calls = []\<rparr>"]
  by (simp add: PrimitiveCount_def NewGovernanceEngine_def)

text \<open>
  C1. Three primitives are registered in the order P1, P2, P3 on a new engine; in the
  run, the result of P1 is valid and the result of P2 is not (whatever P3 would
  return). Then \<^verbatim>\<open>Evaluate\<close> returns a decision with \<^verbatim>\<open>permitted = false\<close>, exactly
  two signals and exactly one failure reason, which contains the id P2 was registered
  under; the calls made are those of positions 0 and 1, and the world is the one P2
  left: \<^verbatim>\<open>Evaluate\<close> of P3 is never invoked.
\<close>

theorem Evaluate_fails_closed:
  assumes r1: "RegisterPrimitive id1 (Some P1) NewGovernanceEngine = (None, ge1)"
    and r2: "RegisterPrimitive id2 (Some P2) ge1 = (None, ge2)"
    and r3: "RegisterPrimitive id3 (Some P3) ge2 = (None, ge)"
    and e1: "Evaluate P1 ctx (world s) = (res1, w1)" and v1: "is_valid res1"
    and e2: "Evaluate P2 ctx w1 = (res2, w2)" and v2: "\<not> is_valid res2"
  shows "\<exists>d. Evaluate_engine sha256 now ge ctx s =
               Some (d, s\<lparr>world := w2, calls := calls s @ [0, 1]\<rparr>) \<and>
             Permitted d = False \<and> length (Signals d) = 2 \<and>
             length (FailureReasons d) = 1 \<and> Contains (hd (FailureReasons d)) id2"
proof -
  from r1 have g1: "ge1 = \<lparr>primitives = [P1], primitiveIDs = [id1],
      versions = [id1 \<mapsto> Version P1]\<rparr>"
    by (auto simp: RegisterPrimitive_def NewGovernanceEngine_def split: if_splits)
  from r2 have g2: "ge2 = \<lparr>primitives = [P1, P2], primitiveIDs = [id1, id2],
      versions = [id1 \<mapsto> Version P1, id2 \<mapsto> Version P2]\<rparr>"
    by (auto simp: RegisterPrimitive_def g1 split: if_splits)
  from r3 have g: "ge = \<lparr>primitives = [P1, P2, P3], primitiveIDs = [id1, id2, id3],
      versions = [id1 \<mapsto> Version P1, id2 \<mapsto> Version P2, id3 \<mapsto> Version P3]\<rparr>"
    by (auto simp: RegisterPrimitive_def g2 split: if_splits)
  have c: "Contains (failure_reason id2 res2) id2"
    unfolding Contains_iff failure_reason_def quoted_def
    by (auto split: val.splits intro: exI[of _ "''Primitive '' @ [CHR 0x27]"])
  show ?thesis
    using v1 v2 c
    by (simp add: Evaluate_engine_def g e1 e2 invoke_def assert_bool_valid Let_def
        index_Nil index_Cons)
qed


theorem Evaluate_fails_closed_witness:
  "map_option (\<lambda>(d, s'). (Permitted d, length (Signals d), FailureReasons d, calls s'))
     (Evaluate_engine constant_digest 0 (fail_closed_engine :: unit GovernanceEngine)
        empty_context \<lparr>world = (), calls = []\<rparr>) =
   Some (False, 2, [''Primitive '' @ quoted ''denied'' @ '' failed''], [0, 1])"
  using Evaluate_fails_closed
      [where ?id1.0 = "''auth''" and ?P1.0 = "MockPrimitive ''auth'' ''1.0.0'' True"
         and ?ge1.0 = "snd (RegisterPrimitive ''auth''
               (Some (MockPrimitive ''auth'' ''1.0.0'' True)) NewGovernanceEngine)"
         and ?id2.0 = "''denied''" and ?P2.0 = "MockPrimitive ''denied'' ''1.0.0'' False"
         and ?ge2.0 = "snd (RegisterPrimitive ''denied''
               (Some (MockPrimitive ''denied'' ''1.0.0'' False))
               (snd (RegisterPrimitive ''auth''
                  (Some (MockPrimitive ''auth'' ''1.0.0'' True)) NewGovernanceEngine)))"
         and ?id3.0 = "''never_reached''"
         and ?P3.0 = "MockPrimitive ''never_reached'' ''1.0.0'' True"
         and ge = "fail_closed_engine :: unit GovernanceEngine"
         and ctx = empty_context and s = "\<lparr>world = (), calls = []\<rparr>"
         and ?res1.0 = "[(''valid'', VBool True),
               (''metadata'', VMap [(''primitive'', VStr ''auth'')]), (''evidence'', VList [])]"
         and ?w1.0 = "()"
         and ?res2.0 = "[(''valid'', VBool False),
               (''metadata'', VMap [(''primitive'', VStr ''denied'')]), (''evidence'', VList [])]"
         and ?w2.0 = "()" and ?sha256.0 = constant_digest and now = 0]
  by (simp add: fail_closed_engine_def RegisterPrimitive_def NewGovernanceEngine_def
      MockPrimitive_def Evaluate_engine_def invoke_def assert_bool_def is_valid_def
      index_def failure_reason_def Let_def)

section \<open>Properties of the compliance checker\<close>

text \<open>
  C7, as amended. \<^verbatim>\<open>CheckPrimitive\<close> returns an error, and no report, when the
  primitive is \<^verbatim>\<open>nil\<close>; for every other primitive it returns a report and no error,
  and when \<^verbatim>\<open>Version()\<close> is the empty string the report is not compliant and holds a
  violation of the requirement \<^verbatim>\<open>version\<close> whose details are
  \<^verbatim>\<open>Version() must return non-empty string\<close>.
\<close>

theorem CheckPrimitive_reports:
  "CheckPrimitive None s = ((None, Some (errorString ''primitive cannot be nil'')), s) \<and>
   (\<exists>report s'.
      CheckPrimitive (Some q) s = ((Some report, None), s') \<and>
      (Version q = [] \<longrightarrow>
         \<not> Compliant report \<and>
         list_ex (\<lambda>v. Requirement v = ''version'' \<and>
                      Details v = ''Version() must return non-empty string'')
           (Violations report)))"
  by (auto simp: CheckPrimitive_def invoke_def Let_def split: prod.splits option.splits)

theorem CheckPrimitive_reports_witness:
  "Version (BadVersionPrimitive :: (DeterministicContext, unit) GovernancePrimitive) = [] \<and>
   CheckPrimitive (Some BadVersionPrimitive) \<lparr>world = (), calls = []\<rparr> =
     ((Some \<lparr>Compliant = False,
             Violations = [\<lparr>Primitive = ''unknown'', Requirement = ''version'',
                            Details = ''Version() must return non-empty string''\<rparr>],
             Checked = [''version'', ''evaluate_contract'']\<rparr>, None),
      \<lparr>world = (), calls = [0]\<rparr>) \<and>
   CheckPrimitive (None :: (DeterministicContext, unit) GovernancePrimitive option)
       \<lparr>world = (), calls = []\<rparr> =
     ((None, Some (errorString ''primitive cannot be nil'')), \<lparr>world = (), calls = []\<rparr>)"
  using CheckPrimitive_reports[of "\<lparr>world = (), calls = []\<rparr>"
      "BadVersionPrimitive :: (DeterministicContext, unit) GovernancePrimitive"]
  by (simp add: CheckPrimitive_def BadVersionPrimitive_def invoke_def Let_def)

text \<open>
  C7 as stated fails on the wording of the details: for the test's
  \<^verbatim>\<open>BadVersionPrimitive\<close> the only violation reads
  \<^verbatim>\<open>Version() must return non-empty string\<close>, and no violation has the details
  \<^verbatim>\<open>must be non-empty\<close>.
\<close>

theorem version_details_counterexample:
  "fst (CheckPrimitive
          (Some (BadVersionPrimitive :: (DeterministicContext, unit) GovernancePrimitive))
          \<lparr>world = (), calls = []\<rparr>) =
     (Some \<lparr>Compliant = False,
            Violations = [\<lparr>Primitive = ''unknown'', Requirement = ''version'',
                           Details = ''Version() must return non-empty string''\<rparr>],
            Checked = [''version'', ''evaluate_contract'']\<rparr>, None) \<and>
   ''Version() must return non-empty string'' \<noteq> ''must be non-empty''"
  by (simp add: CheckPrimitive_def BadVersionPrimitive_def invoke_def Let_def)

section \<open>Properties of the proof generator\<close>












section \<open>Properties of the deterministic context\<close>






section \<open>Properties of the determinism enforcer\<close>

lemma TrimSpace_empty_iff: "TrimSpace s = [] \<longleftrightarrow> list_all IsSpace s"
proof
  assume "TrimSpace s = []"
  then have all: "\<forall>x\<in>set (dropWhile IsSpace s). IsSpace x"
    by (simp add: TrimSpace_def dropWhile_eq_Nil_conv)
  have "dropWhile IsSpace s = []"
  proof (rule ccontr)
    assume ne: "dropWhile IsSpace s \<noteq> []"
    then have "\<not> IsSpace (hd (dropWhile IsSpace s))" by (rule hd_dropWhile)
    moreover from ne have "hd (dropWhile IsSpace s) \<in> set (dropWhile IsSpace s)" by simp
    ultimately show False using all by blast
  qed
  then show "list_all IsSpace s" by (simp add: dropWhile_eq_Nil_conv list_all_iff)
next
  assume "list_all IsSpace s"
  then have d: "dropWhile IsSpace s = []" by (simp add: dropWhile_eq_Nil_conv list_all_iff)
  show "TrimSpace s = []" unfolding TrimSpace_def d by simp
qed

lemma Contains_trans: "Contains s m \<Longrightarrow> Contains m x \<Longrightarrow> Contains s x"
proof -
  assume "Contains s m" and "Contains m x"
  then obtain a b c d where "s = a @ m @ b" and "m = c @ x @ d"
    unfolding Contains_iff by blast
  then have "s = (a @ c) @ x @ (d @ b)" by simp
  then show ?thesis unfolding Contains_iff by blast
qed

lemma Contains_Join: "v \<in> set vs \<Longrightarrow> Contains (Join vs sep) v"
proof (induction vs sep rule: Join.induct)
  case (1 sep)
  then show ?case by simp
next
  case (2 x sep)
  then have "Join [x] sep = [] @ v @ []" by simp
  then show ?case unfolding Contains_iff by blast
next
  case (3 x y ys sep)
  show ?case
  proof (cases "v = x")
    case True
    then have "Join (x # y # ys) sep = [] @ v @ (sep @ Join (y # ys) sep)" by simp
    then show ?thesis unfolding Contains_iff by blast
  next
    case False
    with 3 have "Contains (Join (y # ys) sep) v" by simp
    then obtain a b where "Join (y # ys) sep = a @ v @ b" unfolding Contains_iff by blast
    then have "Join (x # y # ys) sep = (x @ sep @ a) @ v @ b" by simp
    then show ?thesis unfolding Contains_iff by blast
  qed
qed

lemma match_here_lit:
  "(\<And>p. match_here re p t) \<Longrightarrow> match_here (lit l @ re) prev (runes l @ t)"
  by (induction l arbitrary: prev) (simp_all add: lit_def runes_def)

lemma match_from_here: "match_here re prev s \<Longrightarrow> match_from re prev s"
  by (cases s) simp_all

lemma match_from_append:
  "(\<And>p. match_here re p s) \<Longrightarrow> match_from re prev (a @ s)"
proof (induction a arbitrary: prev)
  case Nil
  then show ?case by (simp add: match_from_here)
next
  case (Cons x a)
  then show ?case by simp
qed

lemma time_Now_matches:
  assumes "Contains sourceCode (runes ''time.Now('')"
  shows "MatchString (function_pattern ''time.Now'') sourceCode"
proof -
  from assms obtain a b where s: "sourceCode = a @ runes ''time.Now('' @ b"
    unfolding Contains_iff by blast
  have tail: "\<And>p. match_here ([Star Space] @ lit ''('') p (runes ''('' @ b)"
    by (simp add: lit_def runes_def)
  have "\<And>p. match_here (lit ''time.Now'' @ [Star Space] @ lit ''('') p
            (runes ''time.Now'' @ runes ''('' @ b)"
    by (rule match_here_lit) (rule tail)
  then have "\<And>p. match_here (function_pattern ''time.Now'') p (runes ''time.Now('' @ b)"
    by (simp add: function_pattern_def runes_def)
  then show ?thesis
    unfolding MatchString_def s by (rule match_from_append)
qed

lemma time_Now_not_blank:
  assumes "Contains sourceCode (runes ''time.Now('')"
  shows "\<not> list_all IsSpace sourceCode"
proof -
  from assms obtain a b where s: "sourceCode = a @ runes ''time.Now('' @ b"
    unfolding Contains_iff by blast
  show ?thesis by (simp add: s runes_def IsSpace_def)
qed

lemma time_Now_violation:
  assumes "MatchString (function_pattern ''time.Now'') sourceCode"
  shows "''Banned function '' @ quoted ''time.Now'' @ '' found'' \<in> set (function_violations sourceCode)"
  using assms by (simp add: function_violations_def BannedFunctions_def)

lemma no_violations:
  "\<not> matches_banned sourceCode \<Longrightarrow>
   import_violations sourceCode @ function_violations sourceCode @
   dynamic_import_violations sourceCode @ global_state_violations sourceCode = []"
  by (auto simp: matches_banned_def import_violations_def function_violations_def
      dynamic_import_violations_def global_state_violations_def list_ex_iff)

text \<open>
  C8, as amended. \<^verbatim>\<open>ValidateDeterministic\<close> returns the error \<^verbatim>\<open>empty source code\<close>
  for every source that is empty or made of whitespace only; for every source that
  contains the token \<^verbatim>\<open>time.Now(\<close> it returns an error whose message mentions
  \<^verbatim>\<open>time.Now\<close>; and for every source that is not empty or whitespace-only and matches
  none of the banned-import patterns, the banned-call patterns, the dynamic-import
  token and the global-mutable-state patterns, it returns no error.
\<close>

theorem ValidateDeterministic_lint:
  "(list_all IsSpace sourceCode \<longrightarrow>
      ValidateDeterministic sourceCode =
        Some (NonDeterministicPrimitiveError ''empty source code'')) \<and>
   (Contains sourceCode (runes ''time.Now('') \<longrightarrow>
      (\<exists>msg. ValidateDeterministic sourceCode = Some (NonDeterministicPrimitiveError msg) \<and>
             Contains msg ''time.Now'')) \<and>
   (\<not> list_all IsSpace sourceCode \<and> \<not> matches_banned sourceCode \<longrightarrow>
      ValidateDeterministic sourceCode = None)"
proof (intro conjI impI)
  assume "list_all IsSpace sourceCode"
  then show "ValidateDeterministic sourceCode =
      Some (NonDeterministicPrimitiveError ''empty source code'')"
    by (simp add: ValidateDeterministic_def TrimSpace_empty_iff)
next
  assume c: "Contains sourceCode (runes ''time.Now('')"
  let ?vs = "import_violations sourceCode @ function_violations sourceCode @
             dynamic_import_violations sourceCode @ global_state_violations sourceCode"
  let ?v = "''Banned function '' @ quoted ''time.Now'' @ '' found''"
  have mem: "?v \<in> set ?vs"
    using time_Now_violation[OF time_Now_matches[OF c]] by simp
  then have ne: "?vs \<noteq> []" by auto
  have "Contains ?v ''time.Now''" by (simp add: quoted_def)
  with Contains_Join[OF mem, of "''; ''"] have "Contains (Join ?vs ''; '') ''time.Now''"
    by (rule Contains_trans)
  moreover have "ValidateDeterministic sourceCode =
      Some (NonDeterministicPrimitiveError (Join ?vs ''; ''))"
    using time_Now_not_blank[OF c] ne
    by (simp add: ValidateDeterministic_def TrimSpace_empty_iff Let_def)
  ultimately show "\<exists>msg. ValidateDeterministic sourceCode =
      Some (NonDeterministicPrimitiveError msg) \<and> Contains msg ''time.Now''"
    by blast
next
  assume "\<not> list_all IsSpace sourceCode \<and> \<not> matches_banned sourceCode"
  then show "ValidateDeterministic sourceCode = None"
    by (simp add: ValidateDeterministic_def TrimSpace_empty_iff no_violations)
qed

theorem ValidateDeterministic_lint_witness:
  "ValidateDeterministic [32, 32, 32, 10, 9, 32, 32] =
     Some (NonDeterministicPrimitiveError ''empty source code'') \<and>
   ValidateDeterministic (runes ''t := time.Now()'') =
     Some (NonDeterministicPrimitiveError
             (''Banned function '' @ quoted ''time.Now'' @ '' found'')) \<and>
   ValidateDeterministic (runes ''package main'') = None"
  using ValidateDeterministic_lint[of "[32, 32, 32, 10, 9, 32, 32]"]
    ValidateDeterministic_lint[of "runes ''t := time.Now()''"]
    ValidateDeterministic_lint[of "runes ''package main''"]
  by (simp add: matches_banned_def ValidateDeterministic_def TrimSpace_def IsSpace_def
      MatchString_def BannedImports_def BannedFunctions_def import_patterns_def
      function_pattern_def globalMutablePatterns_def import_violations_def
      function_violations_def dynamic_import_violations_def global_state_violations_def
      lit_def runes_def quoted_def is_s_def is_w_def)

text \<open>
  C8 as stated fails on its last part: a source of one space is not empty and matches
  none of the patterns, and \<^verbatim>\<open>ValidateDeterministic\<close> returns an error for it.
\<close>

theorem blank_source_counterexample:
  "[32 :: rune] \<noteq> [] \<and> \<not> matches_banned [32] \<and>
   ValidateDeterministic [32] = Some (NonDeterministicPrimitiveError ''empty source code'')"
  by (simp add: matches_banned_def ValidateDeterministic_def TrimSpace_def IsSpace_def
      MatchString_def BannedImports_def BannedFunctions_def import_patterns_def
      function_pattern_def globalMutablePatterns_def lit_def runes_def is_s_def is_w_def)

end
